theory Spec2Isabelle
  imports Complex_Main "HOL-Library.Sublist"
begin

section \<open>Python values and exceptions\<close>

text \<open>
  The exceptions the three modules can raise, as values. Numbers are exact reals:
  Python's floats are idealised, so rounding is not part of the model; every division of
  the source goes through \<open>py_truediv\<close>, which raises on a zero divisor as Python does.
\<close>

datatype py_error =
    FileNotFoundError
  | NotADirectoryError
  | RuntimeError
  | CalledProcessError int
  | UnicodeDecodeError
  | ParserError
  | EmptyDataError
  | KeyError string
  | AttributeError string
  | ValueError
  | ZeroDivisionError

datatype pyval = PStr string | PInt int | PObj string

definition py_truediv :: "real \<Rightarrow> real \<Rightarrow> py_error + real" where
  "py_truediv a b = (if b = 0 then Inl ZeroDivisionError else Inr (a / b))"

text \<open>A module namespace: attribute access on a name that is not bound raises.\<close>

type_synonym namespace = "string \<rightharpoonup> pyval"

definition getattr :: "namespace \<Rightarrow> string \<Rightarrow> py_error + pyval" where
  "getattr ns a = (case ns a of None \<Rightarrow> Inl (AttributeError a) | Some v \<Rightarrow> Inr v)"

section \<open>report.py: the Report Data handed to the renderer\<close>

text \<open>
  A dict is an association list in insertion order. The key \<open>growth\<close> may be absent
  (outer \<open>None\<close>) or bound to Python's \<open>None\<close> (inner \<open>None\<close>).
\<close>

record breakdown =
  amounts :: "(string \<times> real) list"
  counts :: "(string \<times> int) list"

record invoice_metrics =
  total_revenue :: real
  total_transactions :: int
  average_transaction :: real
  total_vat :: real
  payment_breakdown :: breakdown
  service_breakdown :: breakdown

record item_row =
  item_ITEMS :: string
  item_QTY :: real
  item_AMOUNT :: real
  item_PROFIT :: real

record category_row =
  cat_CATOGERY :: string
  cat_QTY :: real
  cat_AMOUNT :: real
  cat_PROFIT :: real

record sales_metrics =
  top_items :: "item_row list"
  category_performance :: "category_row list"

record report_data =
  invoices :: invoice_metrics
  sales :: sales_metrics
  period_start_date :: "int \<times> int \<times> int"
  growth :: "real option option"

subsection \<open>Formatted text and document elements\<close>

text \<open>
  An f-string is kept symbolically: literal text, and values with the format
  specification the source applies to them. Table and paragraph styles are layout only
  and are left out; spacer sizes and column widths are in points (one inch is 72).
\<close>

datatype piece =
    Lit string
  | FReal string real
  | FInt string int
  | FDate string "int \<times> int \<times> int"
  | FObj pyval

type_synonym fstring = "piece list"

datatype element =
    Paragraph fstring string
  | Spacer real real
  | Table "fstring list list" "real list"

definition plain :: "string \<Rightarrow> fstring" where
  "plain s = [Lit s]"

definition inch :: real where
  "inch = 72"

definition arrow_up :: string where
  "arrow_up = [CHR 0xE2, CHR 0x86, CHR 0x91]"

definition arrow_down :: string where
  "arrow_down = [CHR 0xE2, CHR 0x86, CHR 0x93]"

fun py_int_of_float :: "real \<Rightarrow> int" where
  "py_int_of_float x = (if 0 \<le> x then \<lfloor>x\<rfloor> else \<lceil>x\<rceil>)"

subsection \<open>create\_header\<close>

definition create_header :: "namespace \<Rightarrow> report_data \<Rightarrow> py_error + element list" where
  "create_header config rd =
     (case getattr config ''RESTAURANT_NAME'' of
        Inl e \<Rightarrow> Inl e
      | Inr restaurant_name \<Rightarrow>
          (case getattr config ''REPORT_TITLE'' of
             Inl e \<Rightarrow> Inl e
           | Inr report_title \<Rightarrow>
               Inr [Paragraph [FObj restaurant_name] ''CustomTitle'',
                    Paragraph [FObj report_title, Lit '' - '',
                               FDate ''%B %Y'' (period_start_date rd)] ''Subtitle'',
                    Spacer 1 (0.3 * inch)]))"

subsection \<open>create\_summary\_section\<close>

definition growth_arrow :: "real \<Rightarrow> string" where
  "growth_arrow g = (if g > 0 then arrow_up else arrow_down)"

definition growth_rows :: "report_data \<Rightarrow> fstring list list" where
  "growth_rows rd =
     (case growth rd of
        None \<Rightarrow> []
      | Some None \<Rightarrow> []
      | Some (Some g) \<Rightarrow>
          [ [plain ''Growth vs Previous Month'',
            [FReal ''+.1f'' g, Lit ''% '', Lit (growth_arrow g)]]])"

definition summary_data :: "report_data \<Rightarrow> fstring list list" where
  "summary_data rd =
     (let inv_metrics = invoices rd in
      [ [plain ''Total Revenue'', [FReal '',.2f'' (total_revenue inv_metrics)]],
       [plain ''Total Transactions'', [FInt '','' (total_transactions inv_metrics)]],
       [plain ''Average Transaction'', [FReal ''.2f'' (average_transaction inv_metrics)]],
       [plain ''Total VAT Collected'', [FReal ''.2f'' (total_vat inv_metrics)]]]
      @ growth_rows rd)"

definition create_summary_section :: "report_data \<Rightarrow> element list" where
  "create_summary_section rd =
     [Paragraph (plain ''<b>EXECUTIVE SUMMARY</b>'') ''Heading2'',
      Spacer 1 (0.1 * inch),
      Table (summary_data rd) [3 * inch, 2 * inch],
      Spacer 1 (0.3 * inch)]"

subsection \<open>create\_payment\_section, create\_service\_section\<close>

text \<open>
  The expression \<open>(a / b * 100) if b > 0 else 0\<close>, which the payment, service and
  category loops all use.
\<close>

definition percent_or_zero :: "real \<Rightarrow> real \<Rightarrow> py_error + real" where
  "percent_or_zero a b =
     (if b > 0 then (case py_truediv a b of Inl e \<Rightarrow> Inl e | Inr q \<Rightarrow> Inr (q * 100))
      else Inr 0)"

definition dict_get :: "(string \<times> int) list \<Rightarrow> string \<Rightarrow> int \<Rightarrow> int" where
  "dict_get d k dflt = (case map_of d k of None \<Rightarrow> dflt | Some v \<Rightarrow> v)"

fun breakdown_rows ::
  "real \<Rightarrow> (string \<times> int) list \<Rightarrow> (string \<times> real) list \<Rightarrow> py_error + fstring list list" where
  "breakdown_rows total_amount cnts [] = Inr []"
| "breakdown_rows total_amount cnts ((method, amount) # rest) =
     (let count = dict_get cnts method 0 in
      case percent_or_zero amount total_amount of
        Inl e \<Rightarrow> Inl e
      | Inr percentage \<Rightarrow>
          (case breakdown_rows total_amount cnts rest of
             Inl e \<Rightarrow> Inl e
           | Inr rows \<Rightarrow>
               Inr ([plain method, [FInt '','' count], [FReal '',.2f'' amount],
                     [FReal ''.1f'' percentage, Lit ''%'']] # rows)))"

definition payment_header :: "fstring list" where
  "payment_header =
     [plain ''Payment Method'', plain ''Transactions'', plain ''Amount'', plain ''Percentage'']"

definition service_header :: "fstring list" where
  "service_header =
     [plain ''Service Type'', plain ''Orders'', plain ''Amount'', plain ''Percentage'']"

definition create_payment_section :: "report_data \<Rightarrow> py_error + element list" where
  "create_payment_section rd =
     (let total_amount = total_revenue (invoices rd);
          pb = payment_breakdown (invoices rd) in
      case breakdown_rows total_amount (counts pb) (amounts pb) of
        Inl e \<Rightarrow> Inl e
      | Inr rows \<Rightarrow>
          Inr [Paragraph (plain ''<b>PAYMENT BREAKDOWN</b>'') ''Heading2'',
               Spacer 1 (0.1 * inch),
               Table (payment_header # rows) [2 * inch, 1.5 * inch, 1.5 * inch, 1 * inch],
               Spacer 1 (0.3 * inch)])"

definition create_service_section :: "report_data \<Rightarrow> py_error + element list" where
  "create_service_section rd =
     (let total_amount = total_revenue (invoices rd);
          sb = service_breakdown (invoices rd) in
      case breakdown_rows total_amount (counts sb) (amounts sb) of
        Inl e \<Rightarrow> Inl e
      | Inr rows \<Rightarrow>
          Inr [Paragraph (plain ''<b>SERVICE TYPE BREAKDOWN</b>'') ''Heading2'',
               Spacer 1 (0.1 * inch),
               Table (service_header # rows) [2 * inch, 1.5 * inch, 1.5 * inch, 1 * inch],
               Spacer 1 (0.3 * inch)])"

subsection \<open>create\_top\_items\_section\<close>

fun top_item_rows :: "int \<Rightarrow> item_row list \<Rightarrow> fstring list list" where
  "top_item_rows i [] = []"
| "top_item_rows i (item # rest) =
     [ [FInt '''' i], plain (item_ITEMS item),
      [FInt '','' (py_int_of_float (item_QTY item))],
      [FReal '',.2f'' (item_AMOUNT item)],
      [FReal '',.2f'' (item_PROFIT item)]] # top_item_rows (i + 1) rest"

definition items_header :: "fstring list" where
  "items_header =
     [plain ''Rank'', plain ''Item'', plain ''Qty Sold'', plain ''Revenue'', plain ''Profit'']"

definition create_top_items_section :: "namespace \<Rightarrow> report_data \<Rightarrow> py_error + element list" where
  "create_top_items_section config rd =
     (case getattr config ''TOP_ITEMS_COUNT'' of
        Inl e \<Rightarrow> Inl e
      | Inr n \<Rightarrow>
          Inr [Paragraph [Lit ''<b>TOP '', FObj n, Lit '' SELLING ITEMS</b>''] ''Heading2'',
               Spacer 1 (0.1 * inch),
               Table (items_header # top_item_rows 1 (top_items (sales rd)))
                 [0.5 * inch, 2.5 * inch, 1 * inch, 1.5 * inch, 1.5 * inch],
               Spacer 1 (0.3 * inch)])"

subsection \<open>create\_category\_section\<close>

fun category_rows :: "category_row list \<Rightarrow> py_error + fstring list list" where
  "category_rows [] = Inr []"
| "category_rows (cat # rest) =
     (case percent_or_zero (cat_PROFIT cat) (cat_AMOUNT cat) of
        Inl e \<Rightarrow> Inl e
      | Inr margin \<Rightarrow>
          (case category_rows rest of
             Inl e \<Rightarrow> Inl e
           | Inr rows \<Rightarrow>
               Inr ([plain (cat_CATOGERY cat),
                     [FInt '','' (py_int_of_float (cat_QTY cat))],
                     [FReal '',.2f'' (cat_AMOUNT cat)],
                     [FReal '',.2f'' (cat_PROFIT cat)],
                     [FReal ''.1f'' margin, Lit ''%'']] # rows)))"

definition category_header :: "fstring list" where
  "category_header =
     [plain ''Category'', plain ''Items Sold'', plain ''Revenue'', plain ''Profit'',
      plain ''Margin %'']"

definition create_category_section :: "report_data \<Rightarrow> py_error + element list" where
  "create_category_section rd =
     (case category_rows (category_performance (sales rd)) of
        Inl e \<Rightarrow> Inl e
      | Inr rows \<Rightarrow>
          Inr [Paragraph (plain ''<b>CATEGORY PERFORMANCE</b>'') ''Heading2'',
               Spacer 1 (0.1 * inch),
               Table (category_header # rows)
                 [2 * inch, 1.2 * inch, 1.5 * inch, 1.5 * inch, 1 * inch],
               Spacer 1 (0.3 * inch)])"

subsection \<open>generate\_pdf\<close>

text \<open>
  The sections are built in the source's order and the first exception ends the run. The
  result is the element list handed to \<open>pdf.build\<close>; the layout engine itself is
  external.
\<close>

definition generate_pdf :: "namespace \<Rightarrow> report_data \<Rightarrow> py_error + element list" where
  "generate_pdf config rd =
     (case create_header config rd of
        Inl e \<Rightarrow> Inl e
      | Inr header \<Rightarrow>
     (case create_payment_section rd of
        Inl e \<Rightarrow> Inl e
      | Inr payment \<Rightarrow>
     (case create_service_section rd of
        Inl e \<Rightarrow> Inl e
      | Inr service \<Rightarrow>
     (case create_top_items_section config rd of
        Inl e \<Rightarrow> Inl e
      | Inr top_items_sec \<Rightarrow>
     (case create_category_section rd of
        Inl e \<Rightarrow> Inl e
      | Inr category \<Rightarrow>
          Inr (header @ create_summary_section rd @ payment @ service @ top_items_sec @ category))))))"

fun table_rows :: "element list \<Rightarrow> fstring list list list" where
  "table_rows [] = []"
| "table_rows (Table rows ws # es) = rows # table_rows es"
| "table_rows (e # es) = table_rows es"

section \<open>config.py\<close>

text \<open>
  The module reads two ini files into one parser and binds its settings at import time.
  The parsed files are a map from section name to the section's keys; \<open>config[s]\<close>
  raises \<open>KeyError\<close> on a section that is missing, and \<open>.get(key, fallback)\<close> returns
  the fallback on a key that is missing. The library functions \<open>os.path.join\<close> and
  \<open>int\<close> and the directory of the module are taken from the environment.
\<close>

type_synonym ini = "string \<rightharpoonup> (string \<rightharpoonup> string)"

record config_env =
  module_dir :: string
  os_path_join :: "string \<Rightarrow> string \<Rightarrow> string"
  py_int :: "string \<Rightarrow> int option"
  ini_files :: ini

definition section_get :: "(string \<rightharpoonup> string) \<Rightarrow> string \<Rightarrow> string \<Rightarrow> string" where
  "section_get sec k fallback = (case sec k of None \<Rightarrow> fallback | Some v \<Rightarrow> v)"

definition config_module :: "config_env \<Rightarrow> py_error + namespace" where
  "config_module env =
     (case ini_files env ''PATH'' of
        None \<Rightarrow> Inl (KeyError ''PATH'')
      | Some path_sec \<Rightarrow>
     (case ini_files env ''EMAIL'' of
        None \<Rightarrow> Inl (KeyError ''EMAIL'')
      | Some email_sec \<Rightarrow>
     (case py_int env (section_get email_sec ''smtp_port'' ''587'') of
        None \<Rightarrow> Inl ValueError
      | Some smtp_port \<Rightarrow>
          Inr (map_of
            [(''configparser'', PObj ''module configparser''),
             (''os'', PObj ''module os''),
             (''SETTINGS_FILE'', PStr (os_path_join env (module_dir env) ''./settings.ini'')),
             (''CONFIG_FILE'', PStr (os_path_join env (module_dir env) ''./config.ini'')),
             (''config'', PObj ''ConfigParser''),
             (''BACKUP_BASE_PATH'', PStr (section_get path_sec ''backup_base_path'' ''./backups'')),
             (''DAILY_REPORTS_PATH'',
                PStr (section_get path_sec ''daily_reports_path'' ''./reports/daily'')),
             (''MONTHLY_REPORTS_PATH'',
                PStr (section_get path_sec ''monthly_reports_path'' ''./reports/monthly'')),
             (''MDB_FILENAME'', PStr ''resturant.mdb''),
             (''RESTAURANT_NAME'', PStr ''TORNADO RESTAURANT''),
             (''REPORT_TITLE'', PStr ''Sales Report''),
             (''EMAIL_FROM'', PStr (section_get email_sec ''email_from'' ''example@gmail.com'')),
             (''EMAIL_PASSWORD'', PStr (section_get email_sec ''email_password'' [])),
             (''EMAIL_TO'', PStr (section_get email_sec ''email_to'' [])),
             (''SMTP_SERVER'', PStr (section_get email_sec ''smtp_server'' ''smtp.gmail.com'')),
             (''SMTP_PORT'', PInt smtp_port)]))))"

section \<open>extract.py\<close>

subsection \<open>find\_latest\_backup\<close>

text \<open>
  The file system is a snapshot: a path is missing, is something that is not a
  directory, or is a directory with its entries (name, whether it is a directory,
  modification time). The function only reads it. The base path is the value of
  \<open>config.BACKUP_BASE_PATH\<close>. Names are byte strings; \<open>upper\<close> changes the ASCII
  letters, and no other character's upper case contributes a letter of \<open>BACKUP\<close>.
\<close>

record 't dirent =
  d_name :: string
  d_is_dir :: bool
  d_st_mtime :: 't

datatype 't fs_node = Missing | NotDir | Dir "'t dirent list"

type_synonym 't filesystem = "string \<Rightarrow> 't fs_node"

definition path_exists :: "'t filesystem \<Rightarrow> string \<Rightarrow> bool" where
  "path_exists fs p = (fs p \<noteq> Missing)"

definition iterdir :: "'t filesystem \<Rightarrow> string \<Rightarrow> py_error + 't dirent list" where
  "iterdir fs p =
     (case fs p of
        Missing \<Rightarrow> Inl FileNotFoundError
      | NotDir \<Rightarrow> Inl NotADirectoryError
      | Dir entries \<Rightarrow> Inr entries)"

definition char_upper :: "char \<Rightarrow> char" where
  "char_upper c =
     (case map_of (zip ''abcdefghijklmnopqrstuvwxyz'' ''ABCDEFGHIJKLMNOPQRSTUVWXYZ'') c of
        None \<Rightarrow> c
      | Some u \<Rightarrow> u)"

definition py_upper :: "string \<Rightarrow> string" where
  "py_upper s = map char_upper s"

definition startswith :: "string \<Rightarrow> string \<Rightarrow> bool" where
  "startswith s p = (take (length p) s = p)"

text \<open>Python's \<open>max(xs, key=f)\<close>: the first element whose key is maximal.\<close>

fun max_from :: "('a \<Rightarrow> 'k::linorder) \<Rightarrow> 'a \<Rightarrow> 'a list \<Rightarrow> 'a" where
  "max_from key best [] = best"
| "max_from key best (x # xs) = max_from key (if key best < key x then x else best) xs"

definition py_max :: "('a \<Rightarrow> 'k::linorder) \<Rightarrow> 'a list \<Rightarrow> py_error + 'a" where
  "py_max key xs = (case xs of [] \<Rightarrow> Inl ValueError | x # rest \<Rightarrow> Inr (max_from key x rest))"

definition is_backup_folder :: "('t::linorder) dirent \<Rightarrow> bool" where
  "is_backup_folder f = (d_is_dir f \<and> startswith (py_upper (d_name f)) ''BACKUP'')"

definition find_latest_backup ::
  "('t::linorder) filesystem \<Rightarrow> string \<Rightarrow> py_error + 't dirent" where
  "find_latest_backup fs backup_base_path =
     (if \<not> path_exists fs backup_base_path then Inl FileNotFoundError
      else case iterdir fs backup_base_path of
             Inl e \<Rightarrow> Inl e
           | Inr entries \<Rightarrow>
               (let backup_folders = filter is_backup_folder entries in
                if backup_folders = [] then Inl FileNotFoundError
                else py_max d_st_mtime backup_folders))"

subsection \<open>export\_table\<close>

text \<open>
  A table is its column names and its rows; a row gives the cell of each column. A cell
  is a raw value as \<open>read_csv\<close> produced it, a timestamp (year, month, day) or the
  invalid marker \<open>NaT\<close>. The external process, the decoding of its output, the CSV
  parser and the date parser \<open>pd.to_datetime\<close> are the environment. The date parser
  is called with the whole column, the \<open>errors\<close> mode and the \<open>dayfirst\<close> flag; it
  raises, or it gives the cell at each position of the new column: a timestamp,
  \<open>NaT\<close> for a value it could not parse, or a value that is no datetime (pandas raises
  \<open>ValueError\<close> on a column that mixes UTC offsets, and releases before 3 return such
  a column as plain objects).
\<close>

datatype 'v cell = Raw 'v | Timestamp "int \<times> int \<times> int" | NaT

type_synonym 'v row = "string \<Rightarrow> 'v cell"

record 'v dataframe =
  columns :: "string list"
  rows :: "'v row list"

datatype proc_result = NoSuchExecutable | Exited int string

datatype errors_mode = ErrorsRaise | ErrorsCoerce

record 'v extract_env =
  check_output :: "string list \<Rightarrow> proc_result"
  decode_utf8 :: "string \<Rightarrow> string option"
  read_csv :: "string \<Rightarrow> py_error + 'v dataframe"
  to_datetime :: "'v cell list \<Rightarrow> errors_mode \<Rightarrow> bool \<Rightarrow> py_error + (nat \<Rightarrow> 'v cell)"

definition export_table ::
  "'v extract_env \<Rightarrow> string \<Rightarrow> string \<Rightarrow> py_error + 'v dataframe" where
  "export_table env mdb_file table_name =
     (case check_output env [''mdb-export'', mdb_file, table_name] of
        NoSuchExecutable \<Rightarrow> Inl RuntimeError
      | Exited returncode output \<Rightarrow>
          (if returncode \<noteq> 0 then Inl (CalledProcessError returncode)
           else case decode_utf8 env output of
                  None \<Rightarrow> Inl UnicodeDecodeError
                | Some txt \<Rightarrow> read_csv env txt))"

subsection \<open>extract\_invoices, extract\_sales\<close>

definition get_column :: "'v dataframe \<Rightarrow> string \<Rightarrow> py_error + 'v cell list" where
  "get_column df c =
     (if c \<in> set (columns df) then Inr (map (\<lambda>r. r c) (rows df)) else Inl (KeyError c))"

definition set_column :: "'v dataframe \<Rightarrow> string \<Rightarrow> 'v cell list \<Rightarrow> 'v dataframe" where
  "set_column df c vals =
     df\<lparr>columns := (if c \<in> set (columns df) then columns df else columns df @ [c]),
        rows := map (\<lambda>(r, v). r(c := v)) (zip (rows df) vals)\<rparr>"

definition select_rows :: "'v dataframe \<Rightarrow> bool list \<Rightarrow> 'v dataframe" where
  "select_rows df msk = df\<lparr>rows := map fst (filter snd (zip (rows df) msk))\<rparr>"

text \<open>
  The accessor \<open>.dt\<close> exists on a column of timestamps and \<open>NaT\<close> only; on any other
  column it raises \<open>AttributeError\<close>. The year and the month of \<open>NaT\<close> are no
  number, so they equal no target.
\<close>

fun is_datetime_cell :: "'v cell \<Rightarrow> bool" where
  "is_datetime_cell (Raw v) = False"
| "is_datetime_cell c = True"

definition dt_accessor :: "'v cell list \<Rightarrow> py_error + 'v cell list" where
  "dt_accessor col =
     (if list_all is_datetime_cell col then Inr col else Inl (AttributeError ''dt''))"

fun dt_year :: "'v cell \<Rightarrow> int option" where
  "dt_year (Timestamp (y, m, d)) = Some y"
| "dt_year c = None"

fun dt_month :: "'v cell \<Rightarrow> int option" where
  "dt_month (Timestamp (y, m, d)) = Some m"
| "dt_month c = None"

text \<open>
  The three statements both extractors run on the exported table: parse the \<open>DATE\<close>
  column with \<open>errors='coerce'\<close> and \<open>dayfirst=True\<close>, store it back, keep the rows
  of the month.
\<close>

definition filter_month ::
  "'v extract_env \<Rightarrow> 'v dataframe \<Rightarrow> int \<Rightarrow> int \<Rightarrow> py_error + 'v dataframe" where
  "filter_month env df year month =
     (case get_column df ''DATE'' of
        Inl e \<Rightarrow> Inl e
      | Inr col \<Rightarrow>
     (case to_datetime env col ErrorsCoerce True of
        Inl e \<Rightarrow> Inl e
      | Inr parsed \<Rightarrow>
          (let df1 = set_column df ''DATE'' (map parsed [0..<length col])
           in case get_column df1 ''DATE'' of
                Inl e \<Rightarrow> Inl e
              | Inr dates \<Rightarrow>
             (case dt_accessor dates of
                Inl e \<Rightarrow> Inl e
              | Inr d \<Rightarrow>
                  Inr (select_rows df1
                         (map (\<lambda>c. dt_year c = Some year \<and> dt_month c = Some month) d))))))"

definition extract_invoices ::
  "'v extract_env \<Rightarrow> string \<Rightarrow> int \<Rightarrow> int \<Rightarrow> py_error + 'v dataframe" where
  "extract_invoices env mdb_file year month =
     (case export_table env mdb_file ''INVOICE'' of
        Inl e \<Rightarrow> Inl e
      | Inr df \<Rightarrow> filter_month env df year month)"

definition extract_sales ::
  "'v extract_env \<Rightarrow> string \<Rightarrow> int \<Rightarrow> int \<Rightarrow> py_error + 'v dataframe" where
  "extract_sales env mdb_file year month =
     (case export_table env mdb_file ''SALE'' of
        Inl e \<Rightarrow> Inl e
      | Inr df \<Rightarrow> filter_month env df year month)"

section \<open>The metrics aggregator\<close>

text \<open>
  The module \<open>analyze\<close> (function \<open>generate_report_data\<close>), which \<open>report.py\<close> imports,
  is not among the sources. Its definitions below follow section 4.4 of the
  specification; each one says so.
\<close>

record invoice_record =
  inv_date :: "int \<times> int \<times> int"
  inv_payment_method :: string
  inv_service_type :: string
  inv_vat :: real
  inv_amount :: real

record sale_record =
  sale_item :: string
  sale_category :: string
  sale_qty :: real
  sale_amount :: real
  sale_profit :: real
  sale_date :: "int \<times> int \<times> int"

text \<open>
  Modelled from the spec: the per-key sums of \<open>payment_breakdown\<close> and
  \<open>service_breakdown\<close> of the missing module \<open>analyze\<close>: a dict in first-seen order
  of the keys, a new key appended, a known key's value increased.
\<close>

fun dict_add :: "string \<Rightarrow> 'a::plus \<Rightarrow> (string \<times> 'a) list \<Rightarrow> (string \<times> 'a) list" where
  "dict_add k v [] = [(k, v)]"
| "dict_add k v ((k', v') # d) =
     (if k' = k then (k', v' + v) # d else (k', v') # dict_add k v d)"

text \<open>
  Modelled from the spec: the breakdown of the missing module \<open>analyze\<close>: two mappings
  keyed by payment method (or service type), summed amount and count per key.
\<close>

definition compute_breakdown ::
  "(invoice_record \<Rightarrow> string) \<Rightarrow> invoice_record list \<Rightarrow> breakdown" where
  "compute_breakdown key invs =
     \<lparr>amounts = foldl (\<lambda>d r. dict_add (key r) (inv_amount r) d) [] invs,
      counts = foldl (\<lambda>d r. dict_add (key r) 1 d) [] invs\<rparr>"

text \<open>
  Modelled from the spec: the invoice-side metrics of the missing module \<open>analyze\<close>:
  \<open>total_revenue\<close> is the sum of the invoice amounts, \<open>total_transactions\<close> the
  number of invoices, \<open>average_transaction\<close> their quotient and 0 when there are no
  transactions, \<open>total_vat\<close> the sum of the VAT amounts.
\<close>

definition analyze_invoices :: "invoice_record list \<Rightarrow> py_error + invoice_metrics" where
  "analyze_invoices invs =
     (let revenue = sum_list (map inv_amount invs);
          n = int (length invs)
      in case (if n > 0 then py_truediv revenue (real_of_int n) else Inr 0) of
           Inl e \<Rightarrow> Inl e
         | Inr average \<Rightarrow>
             Inr \<lparr>total_revenue = revenue,
                  total_transactions = n,
                  average_transaction = average,
                  total_vat = sum_list (map inv_vat invs),
                  payment_breakdown = compute_breakdown inv_payment_method invs,
                  service_breakdown = compute_breakdown inv_service_type invs\<rparr>)"

text \<open>
  Modelled from the spec: the growth of the missing module \<open>analyze\<close>: \<open>None\<close> when
  the prior month's revenue is unavailable or zero, otherwise
  \<open>(current - previous) / previous * 100\<close>.
\<close>

definition calculate_growth :: "real \<Rightarrow> real option \<Rightarrow> py_error + real option" where
  "calculate_growth current previous =
     (case previous of
        None \<Rightarrow> Inr None
      | Some prev \<Rightarrow>
          (if prev = 0 then Inr None
           else case py_truediv (current - prev) prev of
                  Inl e \<Rightarrow> Inl e
                | Inr q \<Rightarrow> Inr (Some (q * 100))))"

text \<open>
  Modelled from the spec: the per-item sums behind \<open>top_items\<close> of the missing module
  \<open>analyze\<close>: one entry per item name, in first-encountered order, carrying the
  summed quantity, revenue and profit.
\<close>

fun add_sale_to_items :: "sale_record \<Rightarrow> item_row list \<Rightarrow> item_row list" where
  "add_sale_to_items s [] =
     [\<lparr>item_ITEMS = sale_item s, item_QTY = sale_qty s,
       item_AMOUNT = sale_amount s, item_PROFIT = sale_profit s\<rparr>]"
| "add_sale_to_items s (r # rs) =
     (if item_ITEMS r = sale_item s
      then r\<lparr>item_QTY := item_QTY r + sale_qty s,
              item_AMOUNT := item_AMOUNT r + sale_amount s,
              item_PROFIT := item_PROFIT r + sale_profit s\<rparr> # rs
      else r # add_sale_to_items s rs)"

definition group_items :: "sale_record list \<Rightarrow> item_row list" where
  "group_items sls = foldl (\<lambda>acc s. add_sale_to_items s acc) [] sls"

text \<open>
  Modelled from the spec: \<open>top_items\<close> of the missing module \<open>analyze\<close>: the top N
  items by revenue, the sort stable on (revenue descending, original order).
  \<open>sort_key\<close> is insertion sort, which is stable.
\<close>

definition compute_top_items :: "nat \<Rightarrow> sale_record list \<Rightarrow> item_row list" where
  "compute_top_items n sls = take n (sort_key (\<lambda>r. - item_AMOUNT r) (group_items sls))"

text \<open>
  Modelled from the spec: \<open>category_performance\<close> of the missing module \<open>analyze\<close>:
  per-category summed quantity, revenue and profit.
\<close>

fun add_sale_to_categories :: "sale_record \<Rightarrow> category_row list \<Rightarrow> category_row list" where
  "add_sale_to_categories s [] =
     [\<lparr>cat_CATOGERY = sale_category s, cat_QTY = sale_qty s,
       cat_AMOUNT = sale_amount s, cat_PROFIT = sale_profit s\<rparr>]"
| "add_sale_to_categories s (r # rs) =
     (if cat_CATOGERY r = sale_category s
      then r\<lparr>cat_QTY := cat_QTY r + sale_qty s,
              cat_AMOUNT := cat_AMOUNT r + sale_amount s,
              cat_PROFIT := cat_PROFIT r + sale_profit s\<rparr> # rs
      else r # add_sale_to_categories s rs)"

definition compute_category_performance :: "sale_record list \<Rightarrow> category_row list" where
  "compute_category_performance sls = foldl (\<lambda>acc s. add_sale_to_categories s acc) [] sls"

text \<open>
  Modelled from the spec: \<open>generate_report_data\<close> of the missing module \<open>analyze\<close>:
  the Report Data with its four sections. The prior month's invoices are optional;
  growth compares \<open>total_revenue\<close> with the same metric of the prior month. The period
  starts on the first day of the month.
\<close>

definition previous_revenue :: "invoice_record list option \<Rightarrow> py_error + real option" where
  "previous_revenue previous =
     (case previous of
        None \<Rightarrow> Inr None
      | Some invs \<Rightarrow>
          (case analyze_invoices invs of
             Inl e \<Rightarrow> Inl e
           | Inr m \<Rightarrow> Inr (Some (total_revenue m))))"

definition generate_report_data ::
  "nat \<Rightarrow> int \<times> int \<Rightarrow> invoice_record list \<Rightarrow> sale_record list \<Rightarrow>
   invoice_record list option \<Rightarrow> py_error + report_data" where
  "generate_report_data n period invs sls previous =
     (case analyze_invoices invs of
        Inl e \<Rightarrow> Inl e
      | Inr m \<Rightarrow>
     (case previous_revenue previous of
        Inl e \<Rightarrow> Inl e
      | Inr prev \<Rightarrow>
     (case calculate_growth (total_revenue m) prev of
        Inl e \<Rightarrow> Inl e
      | Inr g \<Rightarrow>
          Inr \<lparr>invoices = m,
               sales = \<lparr>top_items = compute_top_items n sls,
                        category_performance = compute_category_performance sls\<rparr>,
               period_start_date = (fst period, snd period, 1),
               growth = Some g\<rparr>)))"

section \<open>Sample inputs\<close>

text \<open>
  Concrete inputs on which the theorems below are instantiated. \<open>decimal_int\<close> is
  \<open>int\<close> on strings of decimal digits.
\<close>

fun decimal_digits :: "int \<Rightarrow> string \<Rightarrow> int option" where
  "decimal_digits acc [] = Some acc"
| "decimal_digits acc (c # cs) =
     (let n = (of_char c :: nat) in
      if 48 \<le> n \<and> n \<le> 57 then decimal_digits (10 * acc + int (n - 48)) cs else None)"

definition decimal_int :: "string \<Rightarrow> int option" where
  "decimal_int s = (if s = [] then None else decimal_digits 0 s)"

definition sample_config_env :: config_env where
  "sample_config_env =
     \<lparr>module_dir = ''/opt/pos'',
      os_path_join = (\<lambda>a b. a @ ''/'' @ b),
      py_int = decimal_int,
      ini_files =
        [''PATH'' \<mapsto> [''backup_base_path'' \<mapsto> ''/data/backups'', ''top_items_count'' \<mapsto> ''10''],
         ''EMAIL'' \<mapsto> [''smtp_port'' \<mapsto> ''465''],
         ''REPORT'' \<mapsto> [''top_items_count'' \<mapsto> ''10'']]\<rparr>"

definition empty_breakdown :: breakdown where
  "empty_breakdown = \<lparr>amounts = [], counts = []\<rparr>"

definition empty_report :: report_data where
  "empty_report =
     \<lparr>invoices = \<lparr>total_revenue = 0, total_transactions = 0, average_transaction = 0,
                   total_vat = 0, payment_breakdown = empty_breakdown,
                   service_breakdown = empty_breakdown\<rparr>,
      sales = \<lparr>top_items = [], category_performance = []\<rparr>,
      period_start_date = (2025, 11, 1),
      growth = Some None\<rparr>"

definition refund_report :: report_data where
  "refund_report =
     \<lparr>invoices = \<lparr>total_revenue = - 100, total_transactions = 2, average_transaction = - 50,
                   total_vat = 0,
                   payment_breakdown = \<lparr>amounts = [(''CASH'', 50), (''CARD'', - 150)],
                                         counts = [(''CASH'', 1), (''CARD'', 1)]\<rparr>,
                   service_breakdown = empty_breakdown\<rparr>,
      sales = \<lparr>top_items = [],
               category_performance =
                 [\<lparr>cat_CATOGERY = ''DRINKS'', cat_QTY = 1, cat_AMOUNT = - 10, cat_PROFIT = - 5\<rparr>]\<rparr>,
      period_start_date = (2025, 11, 1),
      growth = Some (Some 0)\<rparr>"

definition sample_fs :: "nat filesystem" where
  "sample_fs p =
     (if p = ''/data/backups'' then
        Dir [\<lparr>d_name = ''backup_2025_10'', d_is_dir = True, d_st_mtime = 5\<rparr>,
             \<lparr>d_name = ''Backup-2025-11'', d_is_dir = True, d_st_mtime = 9\<rparr>,
             \<lparr>d_name = ''BACKUP.txt'', d_is_dir = False, d_st_mtime = 12\<rparr>,
             \<lparr>d_name = ''archive'', d_is_dir = True, d_st_mtime = 20\<rparr>]
      else if p = ''/data/empty'' then
        Dir [\<lparr>d_name = ''archive'', d_is_dir = True, d_st_mtime = 20\<rparr>]
      else Missing)"

text \<open>
  A sample export. The database \<open>pos.mdb\<close> has the tables \<open>INVOICE\<close> and \<open>SALE\<close>,
  exported as the same four rows, and a table \<open>ITEM\<close> for which the tool prints
  nothing; the database \<open>tz.mdb\<close> has an \<open>INVOICE\<close> table whose two dates carry
  different UTC offsets; for any other file or table the tool exits with status 1. The
  sample \<open>read_csv\<close> knows the two texts and raises \<open>EmptyDataError\<close> on the empty
  text, as pandas does. The sample date parser reads the three dates used, day first or
  month first as it is asked; a value it cannot read is \<open>NaT\<close> when errors are
  coerced and raises otherwise; and it raises \<open>ValueError\<close> on the column with the two
  UTC offsets, as pandas does.
\<close>

definition sample_csv :: string where
  "sample_csv =
     ''DATE,TOTAL'' @ [CHR 0x0A] @ ''01/11/2025,100'' @ [CHR 0x0A] @ ''not a date,7'' @ [CHR 0x0A]
     @ ''05/10/2025,30'' @ [CHR 0x0A] @ ''02/11/2025,200'' @ [CHR 0x0A]"

definition tz_csv :: string where
  "tz_csv =
     ''DATE,TOTAL'' @ [CHR 0x0A] @ ''01/11/2025 10:00:00+01:00,100'' @ [CHR 0x0A]
     @ ''02/11/2025 10:00:00+02:00,200'' @ [CHR 0x0A]"

definition sample_row :: "string \<Rightarrow> string \<Rightarrow> string row" where
  "sample_row d a c = (if c = ''DATE'' then Raw d else if c = ''TOTAL'' then Raw a else NaT)"

definition sample_frame :: "string dataframe" where
  "sample_frame =
     \<lparr>columns = [''DATE'', ''TOTAL''],
      rows = [sample_row ''01/11/2025'' ''100'', sample_row ''not a date'' ''7'',
              sample_row ''05/10/2025'' ''30'', sample_row ''02/11/2025'' ''200'']\<rparr>"

definition tz_frame :: "string dataframe" where
  "tz_frame =
     \<lparr>columns = [''DATE'', ''TOTAL''],
      rows = [sample_row ''01/11/2025 10:00:00+01:00'' ''100'',
              sample_row ''02/11/2025 10:00:00+02:00'' ''200'']\<rparr>"

definition sample_parse :: "bool \<Rightarrow> string cell \<Rightarrow> string cell" where
  "sample_parse dayfirst c =
     (if c = Raw ''01/11/2025'' then Timestamp (if dayfirst then (2025, 11, 1) else (2025, 1, 11))
      else if c = Raw ''02/11/2025'' then Timestamp (if dayfirst then (2025, 11, 2) else (2025, 2, 11))
      else if c = Raw ''05/10/2025'' then Timestamp (if dayfirst then (2025, 10, 5) else (2025, 5, 10))
      else NaT)"

definition sample_to_datetime ::
  "string cell list \<Rightarrow> errors_mode \<Rightarrow> bool \<Rightarrow> py_error + (nat \<Rightarrow> string cell)" where
  "sample_to_datetime col errors dayfirst =
     (if Raw ''01/11/2025 10:00:00+01:00'' \<in> set col \<and> Raw ''02/11/2025 10:00:00+02:00'' \<in> set col
      then Inl ValueError
      else if errors = ErrorsRaise \<and> list_ex (\<lambda>c. sample_parse dayfirst c = NaT) col
      then Inl ValueError
      else Inr (\<lambda>i. if i < length col then sample_parse dayfirst (col ! i) else NaT))"

definition sample_extract_env :: "string extract_env" where
  "sample_extract_env =
     \<lparr>check_output = (\<lambda>cmd.
        if cmd = [''mdb-export'', ''pos.mdb'', ''INVOICE''] then Exited 0 sample_csv
        else if cmd = [''mdb-export'', ''pos.mdb'', ''SALE''] then Exited 0 sample_csv
        else if cmd = [''mdb-export'', ''pos.mdb'', ''ITEM''] then Exited 0 []
        else if cmd = [''mdb-export'', ''tz.mdb'', ''INVOICE''] then Exited 0 tz_csv
        else Exited 1 []),
      decode_utf8 = Some,
      read_csv = (\<lambda>txt.
        if txt = sample_csv then Inr sample_frame
        else if txt = tz_csv then Inr tz_frame
        else if txt = [] then Inl EmptyDataError
        else Inl ParserError),
      to_datetime = sample_to_datetime\<rparr>"

text \<open>The same machine without the export tool installed.\<close>

definition no_tool_env :: "string extract_env" where
  "no_tool_env = sample_extract_env\<lparr>check_output := (\<lambda>cmd. NoSuchExecutable)\<rparr>"

section \<open>Views used by the statements\<close>

text \<open>The rows of the tables of a section, when the section was built.\<close>

definition section_tables :: "py_error + element list \<Rightarrow> py_error + fstring list list list" where
  "section_tables r = (case r of Inl e \<Rightarrow> Inl e | Inr es \<Rightarrow> Inr (table_rows es))"

text \<open>
  The four metric rows every executive summary starts with, and the order of first
  occurrence of the elements of a list.
\<close>

definition metric_rows :: "invoice_metrics \<Rightarrow> fstring list list" where
  "metric_rows m =
     [ [plain ''Total Revenue'', [FReal '',.2f'' (total_revenue m)]],
      [plain ''Total Transactions'', [FInt '','' (total_transactions m)]],
      [plain ''Average Transaction'', [FReal ''.2f'' (average_transaction m)]],
      [plain ''Total VAT Collected'', [FReal ''.2f'' (total_vat m)]]]"

definition first_seen :: "'a list \<Rightarrow> 'a list" where
  "first_seen xs = rev (remdups (rev xs))"

definition sample_sales :: "sale_record list" where
  "sample_sales =
     [\<lparr>sale_item = ''TEA'', sale_category = ''DRINKS'', sale_qty = 1, sale_amount = 300,
       sale_profit = 100, sale_date = (2025, 11, 1)\<rparr>,
      \<lparr>sale_item = ''PIZZA'', sale_category = ''FOOD'', sale_qty = 2, sale_amount = 500,
       sale_profit = 200, sale_date = (2025, 11, 1)\<rparr>,
      \<lparr>sale_item = ''COFFEE'', sale_category = ''DRINKS'', sale_qty = 3, sale_amount = 300,
       sale_profit = 150, sale_date = (2025, 11, 2)\<rparr>,
      \<lparr>sale_item = ''PIZZA'', sale_category = ''FOOD'', sale_qty = 1, sale_amount = 250,
       sale_profit = 100, sale_date = (2025, 11, 3)\<rparr>]"

definition sample_invoices :: "invoice_record list" where
  "sample_invoices =
     [\<lparr>inv_date = (2025, 11, 1), inv_payment_method = ''CASH'', inv_service_type = ''DINE IN'',
       inv_vat = 10, inv_amount = 100\<rparr>,
      \<lparr>inv_date = (2025, 11, 2), inv_payment_method = ''CARD'', inv_service_type = ''TAKE AWAY'',
       inv_vat = 20, inv_amount = 200\<rparr>]"

text \<open>
  A name starts with a prefix case-insensitively: it is at least as long, and its first
  characters agree with the prefix after both are put in upper case.
\<close>

definition starts_with_ignoring_case :: "string \<Rightarrow> string \<Rightarrow> bool" where
  "starts_with_ignoring_case s p =
     (length p \<le> length s \<and> map char_upper (take (length p) s) = map char_upper p)"

definition backup_candidate :: "('t::linorder) dirent \<Rightarrow> bool" where
  "backup_candidate f = (d_is_dir f \<and> starts_with_ignoring_case (d_name f) ''BACKUP'')"

text \<open>The sum of a field over the sales of one item.\<close>

definition item_total :: "(sale_record \<Rightarrow> real) \<Rightarrow> string \<Rightarrow> sale_record list \<Rightarrow> real" where
  "item_total f name sls = sum_list (map f (filter (\<lambda>s. sale_item s = name) sls))"

section \<open>The renderer\<close>

lemma percent_or_zero_value:
  "percent_or_zero a b = Inr (if 0 < b then a / b * 100 else 0)"
  by (simp add: percent_or_zero_def py_truediv_def)

lemma breakdown_rows_value:
  "breakdown_rows tot cnts d =
     Inr (map (\<lambda>(method, amount).
            [plain method, [FInt '','' (dict_get cnts method 0)], [FReal '',.2f'' amount],
             [FReal ''.1f'' (if 0 < tot then amount / tot * 100 else 0), Lit ''%'']]) d)"
  by (induction d) (auto simp: percent_or_zero_value)

lemma category_rows_value:
  "category_rows cs =
     Inr (map (\<lambda>cat.
            [plain (cat_CATOGERY cat), [FInt '','' (py_int_of_float (cat_QTY cat))],
             [FReal '',.2f'' (cat_AMOUNT cat)], [FReal '',.2f'' (cat_PROFIT cat)],
             [FReal ''.1f'' (if 0 < cat_AMOUNT cat then cat_PROFIT cat / cat_AMOUNT cat * 100 else 0),
              Lit ''%'']]) cs)"
  by (induction cs) (auto simp: percent_or_zero_value)

lemma payment_tables:
  "section_tables (create_payment_section rd) =
     Inr [payment_header #
          map (\<lambda>(method, amount).
            [plain method,
             [FInt '','' (dict_get (counts (payment_breakdown (invoices rd))) method 0)],
             [FReal '',.2f'' amount],
             [FReal ''.1f'' (if 0 < total_revenue (invoices rd)
                            then amount / total_revenue (invoices rd) * 100 else 0), Lit ''%'']])
            (amounts (payment_breakdown (invoices rd)))]"
  by (simp add: section_tables_def create_payment_section_def breakdown_rows_value Let_def)

lemma service_tables:
  "section_tables (create_service_section rd) =
     Inr [service_header #
          map (\<lambda>(method, amount).
            [plain method,
             [FInt '','' (dict_get (counts (service_breakdown (invoices rd))) method 0)],
             [FReal '',.2f'' amount],
             [FReal ''.1f'' (if 0 < total_revenue (invoices rd)
                            then amount / total_revenue (invoices rd) * 100 else 0), Lit ''%'']])
            (amounts (service_breakdown (invoices rd)))]"
  by (simp add: section_tables_def create_service_section_def breakdown_rows_value Let_def)

lemma category_tables:
  "section_tables (create_category_section rd) =
     Inr [category_header #
          map (\<lambda>cat.
            [plain (cat_CATOGERY cat), [FInt '','' (py_int_of_float (cat_QTY cat))],
             [FReal '',.2f'' (cat_AMOUNT cat)], [FReal '',.2f'' (cat_PROFIT cat)],
             [FReal ''.1f'' (if 0 < cat_AMOUNT cat then cat_PROFIT cat / cat_AMOUNT cat * 100 else 0),
              Lit ''%'']])
            (category_performance (sales rd))]"
  by (simp add: section_tables_def create_category_section_def category_rows_value)

lemma summary_tables:
  "table_rows (create_summary_section rd) = [metric_rows (invoices rd) @ growth_rows rd]"
  by (simp add: create_summary_section_def summary_data_def metric_rows_def Let_def)

lemma growth_rows_cases:
  "growth_rows rd =
     (case growth rd of
        Some (Some g) \<Rightarrow>
          [ [plain ''Growth vs Previous Month'',
            [FReal ''+.1f'' g, Lit ''% '', Lit (if 0 < g then arrow_up else arrow_down)]]]
      | _ \<Rightarrow> [])"
  by (simp add: growth_rows_def growth_arrow_def split: option.splits)

lemma growth_label_not_metric:
  "[plain ''Growth vs Previous Month'', cells] \<notin> set (metric_rows m)"
  by (simp add: metric_rows_def plain_def)

lemma arrows_differ: "arrow_up \<noteq> arrow_down"
  by (simp add: arrow_up_def arrow_down_def)

text \<open>
  C10. In the executive summary the growth row ends with the upward arrow exactly when
  growth is strictly greater than 0; for growth 0 and for negative growth it ends with
  the downward arrow. The two arrows are different strings.
\<close>

theorem growth_arrow_up_only_when_positive:
  assumes "growth rd = Some (Some g)"
  shows "table_rows (create_summary_section rd) =
           [metric_rows (invoices rd) @
            [ [plain ''Growth vs Previous Month'',
              [FReal ''+.1f'' g, Lit ''% '', Lit (growth_arrow g)]]]]
         \<and> (growth_arrow g = arrow_up \<longleftrightarrow> 0 < g)
         \<and> (growth_arrow g = arrow_down \<longleftrightarrow> g \<le> 0)"
  using assms arrows_differ
  by (auto simp: summary_tables growth_rows_def growth_arrow_def)

theorem growth_arrow_up_only_when_positive_witness:
  "growth refund_report = Some (Some 0)
   \<and> table_rows (create_summary_section refund_report) =
       [ [ [ [Lit ''Total Revenue''], [FReal '',.2f'' (- 100)]],
         [ [Lit ''Total Transactions''], [FInt '','' 2]],
         [ [Lit ''Average Transaction''], [FReal ''.2f'' (- 50)]],
         [ [Lit ''Total VAT Collected''], [FReal ''.2f'' 0]],
         [ [Lit ''Growth vs Previous Month''],
          [FReal ''+.1f'' 0, Lit ''% '', Lit [CHR 0xE2, CHR 0x86, CHR 0x93]]]]]"
proof -
  have g: "growth refund_report = Some (Some 0)"
    by (simp add: refund_report_def)
  show ?thesis
    using growth_arrow_up_only_when_positive [OF g] g
    by (simp add: refund_report_def metric_rows_def plain_def growth_arrow_def arrow_down_def)
qed

section \<open>The aggregator's invoice metrics and growth\<close>

lemma analyze_invoices_value:
  "analyze_invoices invs =
     Inr \<lparr>total_revenue = sum_list (map inv_amount invs),
          total_transactions = int (length invs),
          average_transaction =
            (if invs = [] then 0 else sum_list (map inv_amount invs) / real (length invs)),
          total_vat = sum_list (map inv_vat invs),
          payment_breakdown = compute_breakdown inv_payment_method invs,
          service_breakdown = compute_breakdown inv_service_type invs\<rparr>"
  by (simp add: analyze_invoices_def py_truediv_def Let_def)

lemma previous_revenue_value:
  "previous_revenue previous = Inr (map_option (\<lambda>invs. sum_list (map inv_amount invs)) previous)"
  by (simp add: previous_revenue_def analyze_invoices_value split: option.splits)

lemma calculate_growth_value:
  "calculate_growth current previous =
     Inr (case previous of
            None \<Rightarrow> None
          | Some prev \<Rightarrow> if prev = 0 then None else Some ((current - prev) / prev * 100))"
  by (simp add: calculate_growth_def py_truediv_def split: option.splits)

text \<open>
  C4. For every list of invoice records the aggregation succeeds (it never divides by
  zero); \<open>total_revenue\<close> is the sum of the amounts, \<open>total_transactions\<close> the
  number of invoices, and \<open>average_transaction\<close> is their quotient when there is at
  least one transaction and 0 when there is none.
\<close>

theorem average_transaction_defined:
  "\<exists>m. analyze_invoices invs = Inr m
     \<and> total_revenue m = sum_list (map inv_amount invs)
     \<and> total_transactions m = int (length invs)
     \<and> (0 < total_transactions m \<longrightarrow>
          average_transaction m = total_revenue m / real_of_int (total_transactions m))
     \<and> (total_transactions m = 0 \<longrightarrow> average_transaction m = 0)"
  by (simp add: analyze_invoices_value)

theorem average_transaction_defined_witness:
  "(\<exists>m. analyze_invoices sample_invoices = Inr m
      \<and> total_revenue m = 300 \<and> total_transactions m = 2 \<and> average_transaction m = 150)
   \<and> (\<exists>m. analyze_invoices [] = Inr m
      \<and> total_revenue m = 0 \<and> total_transactions m = 0 \<and> average_transaction m = 0)"
  using average_transaction_defined [of sample_invoices] average_transaction_defined [of "[]"]
  by (auto simp: sample_invoices_def)

text \<open>
  C2. For every invoice and sale input the aggregation succeeds and the growth it
  reports is \<open>None\<close> exactly when there is no prior month or the prior month's revenue
  is zero (no division by zero, no 0 percent); otherwise it is
  \<open>(current - previous) / previous * 100\<close>. For every Report Data the executive
  summary has a row labelled \<open>Growth vs Previous Month\<close> exactly when the key
  \<open>growth\<close> is present and its value is not \<open>None\<close>.
\<close>

theorem growth_none_without_prior_revenue:
  "(\<exists>r g. generate_report_data n period invs sls previous = Inr r
       \<and> growth r = Some g
       \<and> (g = None \<longleftrightarrow>
            previous = None \<or> (\<exists>p. previous = Some p \<and> sum_list (map inv_amount p) = 0))
       \<and> (\<forall>p. previous = Some p \<and> sum_list (map inv_amount p) \<noteq> 0 \<longrightarrow>
            g = Some ((sum_list (map inv_amount invs) - sum_list (map inv_amount p))
                      / sum_list (map inv_amount p) * 100)))
   \<and> ((\<exists>cells. [plain ''Growth vs Previous Month'', cells]
                  \<in> set (concat (table_rows (create_summary_section rd))))
        \<longleftrightarrow> (\<exists>v. growth rd = Some (Some v)))"
proof (rule conjI)
  show "\<exists>r g. generate_report_data n period invs sls previous = Inr r
       \<and> growth r = Some g
       \<and> (g = None \<longleftrightarrow>
            previous = None \<or> (\<exists>p. previous = Some p \<and> sum_list (map inv_amount p) = 0))
       \<and> (\<forall>p. previous = Some p \<and> sum_list (map inv_amount p) \<noteq> 0 \<longrightarrow>
            g = Some ((sum_list (map inv_amount invs) - sum_list (map inv_amount p))
                      / sum_list (map inv_amount p) * 100))"
    by (cases previous)
       (simp_all add: generate_report_data_def analyze_invoices_value previous_revenue_value
          calculate_growth_value)
next
  show "(\<exists>cells. [plain ''Growth vs Previous Month'', cells]
                  \<in> set (concat (table_rows (create_summary_section rd))))
        \<longleftrightarrow> (\<exists>v. growth rd = Some (Some v))"
  proof (cases "growth rd")
    case None
    then show ?thesis
      by (simp add: summary_tables growth_label_not_metric growth_rows_def)
  next
    case (Some a)
    then show ?thesis
      by (cases a) (simp_all add: summary_tables growth_label_not_metric growth_rows_def)
  qed
qed

theorem growth_none_without_prior_revenue_witness:
  "(\<exists>r. generate_report_data 5 (2025, 11) sample_invoices sample_sales (Some []) = Inr r
       \<and> growth r = Some None)
   \<and> (\<exists>r. generate_report_data 5 (2025, 11) sample_invoices sample_sales
             (Some [hd sample_invoices]) = Inr r
       \<and> growth r = Some (Some 200))
   \<and> (\<exists>cells. [plain ''Growth vs Previous Month'', cells]
                  \<in> set (concat (table_rows (create_summary_section refund_report))))
   \<and> \<not> (\<exists>cells. [plain ''Growth vs Previous Month'', cells]
                  \<in> set (concat (table_rows (create_summary_section empty_report))))"
  using growth_none_without_prior_revenue
          [of 5 "(2025, 11)" sample_invoices sample_sales "Some []" refund_report]
        growth_none_without_prior_revenue
          [of 5 "(2025, 11)" sample_invoices sample_sales "Some [hd sample_invoices]"
              empty_report]
  by (simp add: sample_invoices_def refund_report_def empty_report_def)

section \<open>Percentages at render time\<close>

text \<open>
  C8, as the claim states it, fails: with a total revenue of -100 the payment row of
  amount 50 is rendered with percentage 0, although the denominator is not 0 and
  \<open>amount / total_revenue * 100\<close> is -50.
\<close>

theorem percentage_negative_total_counterexample:
  "section_tables (create_payment_section refund_report) =
     Inr [ [payment_header,
           [ [Lit ''CASH''], [FInt '','' 1], [FReal '',.2f'' 50], [FReal ''.1f'' 0, Lit ''%'']],
           [ [Lit ''CARD''], [FInt '','' 1], [FReal '',.2f'' (- 150)], [FReal ''.1f'' 0, Lit ''%'']]]]
   \<and> total_revenue (invoices refund_report) \<noteq> 0
   \<and> 50 / total_revenue (invoices refund_report) * 100 = - 50"
  by (simp add: section_tables_def create_payment_section_def refund_report_def
        percent_or_zero_def dict_get_def plain_def Let_def)

text \<open>
  C8, amended. For every Report Data value the three sections with a percentage column
  are built without an exception (no division by zero), each row from the values
  already in Report Data: a payment or service row's percentage is
  \<open>amount / total_revenue * 100\<close> when \<open>total_revenue\<close> is greater than 0 and 0
  otherwise, a category's margin is \<open>profit / revenue * 100\<close> when the revenue is
  greater than 0 and 0 otherwise.
\<close>

theorem percentages_guarded_by_positive_denominator:
  "section_tables (create_payment_section rd) =
     Inr [payment_header #
          map (\<lambda>(method, amount).
            [plain method,
             [FInt '','' (dict_get (counts (payment_breakdown (invoices rd))) method 0)],
             [FReal '',.2f'' amount],
             [FReal ''.1f'' (if 0 < total_revenue (invoices rd)
                            then amount / total_revenue (invoices rd) * 100 else 0), Lit ''%'']])
            (amounts (payment_breakdown (invoices rd)))]
   \<and> section_tables (create_service_section rd) =
     Inr [service_header #
          map (\<lambda>(method, amount).
            [plain method,
             [FInt '','' (dict_get (counts (service_breakdown (invoices rd))) method 0)],
             [FReal '',.2f'' amount],
             [FReal ''.1f'' (if 0 < total_revenue (invoices rd)
                            then amount / total_revenue (invoices rd) * 100 else 0), Lit ''%'']])
            (amounts (service_breakdown (invoices rd)))]
   \<and> section_tables (create_category_section rd) =
     Inr [category_header #
          map (\<lambda>cat.
            [plain (cat_CATOGERY cat), [FInt '','' (py_int_of_float (cat_QTY cat))],
             [FReal '',.2f'' (cat_AMOUNT cat)], [FReal '',.2f'' (cat_PROFIT cat)],
             [FReal ''.1f'' (if 0 < cat_AMOUNT cat then cat_PROFIT cat / cat_AMOUNT cat * 100 else 0),
              Lit ''%'']])
            (category_performance (sales rd))]"
  using payment_tables [of rd] service_tables [of rd] category_tables [of rd]
  by (intro conjI)

theorem percentages_guarded_by_positive_denominator_witness:
  "section_tables (create_category_section refund_report) =
     Inr [ [category_header,
           [ [Lit ''DRINKS''], [FInt '','' 1], [FReal '',.2f'' (- 10)], [FReal '',.2f'' (- 5)],
            [FReal ''.1f'' 0, Lit ''%'']]]]
   \<and> section_tables (create_service_section refund_report) = Inr [ [service_header]]"
  using percentages_guarded_by_positive_denominator [of refund_report]
  by (simp add: refund_report_def empty_breakdown_def plain_def)

section \<open>The configured top-items count\<close>

lemma create_payment_section_builds: "\<exists>es. create_payment_section rd = Inr es"
  by (simp add: create_payment_section_def breakdown_rows_value Let_def)

lemma create_service_section_builds: "\<exists>es. create_service_section rd = Inr es"
  by (simp add: create_service_section_def breakdown_rows_value Let_def)

lemma create_category_section_builds: "\<exists>es. create_category_section rd = Inr es"
  by (simp add: create_category_section_def category_rows_value)

lemma config_module_attributes:
  assumes "config_module env = Inr config"
  shows "config ''TOP_ITEMS_COUNT'' = None"
    and "config ''RESTAURANT_NAME'' = Some (PStr ''TORNADO RESTAURANT'')"
    and "config ''REPORT_TITLE'' = Some (PStr ''Sales Report'')"
  using assms
  by (auto simp: config_module_def split: option.splits)

lemma config_module_sample: "\<exists>config. config_module sample_config_env = Inr config"
  by (simp add: config_module_def sample_config_env_def section_get_def decimal_int_def)

text \<open>
  C6. Whatever the ini files contain, the namespace that \<open>config.py\<close> builds binds no
  \<open>TOP_ITEMS_COUNT\<close>: the setting \<open>top_items_count\<close> is never read and no default is
  given. So \<open>create_top_items_section\<close> raises \<open>AttributeError\<close> on every Report
  Data, and so does \<open>generate_pdf\<close>, whose earlier sections are all built.
\<close>

theorem top_items_count_never_bound:
  assumes "config_module env = Inr config"
  shows "config ''TOP_ITEMS_COUNT'' = None
         \<and> create_top_items_section config rd = Inl (AttributeError ''TOP_ITEMS_COUNT'')
         \<and> generate_pdf config rd = Inl (AttributeError ''TOP_ITEMS_COUNT'')"
proof -
  have top: "create_top_items_section config rd = Inl (AttributeError ''TOP_ITEMS_COUNT'')"
    by (simp add: create_top_items_section_def getattr_def config_module_attributes(1) [OF assms])
  obtain h where h: "create_header config rd = Inr h"
    by (simp add: create_header_def getattr_def config_module_attributes [OF assms])
  obtain p where p: "create_payment_section rd = Inr p"
    using create_payment_section_builds by blast
  obtain s where s: "create_service_section rd = Inr s"
    using create_service_section_builds by blast
  have "generate_pdf config rd = Inl (AttributeError ''TOP_ITEMS_COUNT'')"
    by (simp add: generate_pdf_def h p s top)
  with top config_module_attributes(1) [OF assms] show ?thesis
    by simp
qed

theorem top_items_count_never_bound_witness:
  "\<exists>config. config_module sample_config_env = Inr config
     \<and> config ''TOP_ITEMS_COUNT'' = None
     \<and> create_top_items_section config empty_report = Inl (AttributeError ''TOP_ITEMS_COUNT'')
     \<and> generate_pdf config empty_report = Inl (AttributeError ''TOP_ITEMS_COUNT'')"
proof -
  obtain config where c: "config_module sample_config_env = Inr config"
    using config_module_sample by blast
  from top_items_count_never_bound [OF c, of empty_report] c show ?thesis
    by blast
qed

section \<open>Rendering an empty report\<close>

lemma generate_report_data_empty:
  "generate_report_data n (2025, 11) [] [] None = Inr empty_report"
  by (simp add: generate_report_data_def analyze_invoices_value previous_revenue_value
        calculate_growth_value compute_breakdown_def compute_top_items_def group_items_def
        compute_category_performance_def empty_report_def empty_breakdown_def)

text \<open>
  C9. For Report Data with empty payment and service breakdowns, empty \<open>top_items\<close>
  and empty \<open>category_performance\<close>, the payment, service and category sections are
  built and their tables contain the header row only, as the claim says. But with the
  configuration that \<open>config.py\<close> builds, whatever the ini files contain, the
  top-items section raises \<open>AttributeError\<close> and so does the rendering of the whole
  report: the claim's "renders without raising any exception" fails on the code, by the
  missing \<open>TOP_ITEMS_COUNT\<close>.
\<close>

theorem empty_report_rendering_raises:
  assumes "config_module env = Inr config"
    and "amounts (payment_breakdown (invoices rd)) = []"
    and "amounts (service_breakdown (invoices rd)) = []"
    and "top_items (sales rd) = []"
    and "category_performance (sales rd) = []"
  shows "section_tables (create_payment_section rd) = Inr [ [payment_header]]
         \<and> section_tables (create_service_section rd) = Inr [ [service_header]]
         \<and> section_tables (create_category_section rd) = Inr [ [category_header]]
         \<and> create_top_items_section config rd = Inl (AttributeError ''TOP_ITEMS_COUNT'')
         \<and> generate_pdf config rd = Inl (AttributeError ''TOP_ITEMS_COUNT'')"
proof (intro conjI)
  show "section_tables (create_payment_section rd) = Inr [ [payment_header]]"
    using assms(2) by (simp add: payment_tables)
  show "section_tables (create_service_section rd) = Inr [ [service_header]]"
    using assms(3) by (simp add: service_tables)
  show "section_tables (create_category_section rd) = Inr [ [category_header]]"
    using assms(5) by (simp add: category_tables)
  show top: "create_top_items_section config rd = Inl (AttributeError ''TOP_ITEMS_COUNT'')"
    by (simp add: create_top_items_section_def getattr_def
          config_module_attributes(1) [OF assms(1)])
  obtain h where h: "create_header config rd = Inr h"
    by (simp add: create_header_def getattr_def config_module_attributes [OF assms(1)])
  obtain p where p: "create_payment_section rd = Inr p"
    using create_payment_section_builds by blast
  obtain s where s: "create_service_section rd = Inr s"
    using create_service_section_builds by blast
  show "generate_pdf config rd = Inl (AttributeError ''TOP_ITEMS_COUNT'')"
    by (simp add: generate_pdf_def h p s top)
qed

theorem empty_report_rendering_raises_witness:
  "generate_report_data 5 (2025, 11) [] [] None = Inr empty_report
   \<and> (\<exists>config. config_module sample_config_env = Inr config
        \<and> section_tables (create_payment_section empty_report) = Inr [ [payment_header]]
        \<and> section_tables (create_service_section empty_report) = Inr [ [service_header]]
        \<and> section_tables (create_category_section empty_report) = Inr [ [category_header]]
        \<and> create_top_items_section config empty_report = Inl (AttributeError ''TOP_ITEMS_COUNT'')
        \<and> generate_pdf config empty_report = Inl (AttributeError ''TOP_ITEMS_COUNT''))"
proof -
  obtain config where c: "config_module sample_config_env = Inr config"
    using config_module_sample by blast
  have e: "amounts (payment_breakdown (invoices empty_report)) = []"
    "amounts (service_breakdown (invoices empty_report)) = []"
    "top_items (sales empty_report) = []"
    "category_performance (sales empty_report) = []"
    by (simp_all add: empty_report_def empty_breakdown_def)
  from empty_report_rendering_raises [OF c e] c generate_report_data_empty [of 5]
  show ?thesis
    by blast
qed

section \<open>The backup locator\<close>

lemma max_from_mem: "max_from key b xs \<in> set (b # xs)"
proof (induction xs arbitrary: b)
  case Nil
  then show ?case by simp
next
  case (Cons x xs)
  from Cons.IH [of "if key b < key x then x else b"] show ?case
    by (auto split: if_splits)
qed

lemma max_from_ge_best: "key b \<le> key (max_from key b xs)"
proof (induction xs arbitrary: b)
  case Nil
  then show ?case by simp
next
  case (Cons x xs)
  have "key b \<le> key (if key b < key x then x else b)"
    by (simp add: less_imp_le)
  also have "\<dots> \<le> key (max_from key (if key b < key x then x else b) xs)"
    by (rule Cons.IH)
  finally show ?case by simp
qed

lemma max_from_ge: "y \<in> set (b # xs) \<Longrightarrow> key y \<le> key (max_from key b xs)"
proof (induction xs arbitrary: b)
  case Nil
  then show ?case by simp
next
  case (Cons x xs)
  let ?b = "if key b < key x then x else b"
  have best: "key ?b \<le> key (max_from key ?b xs)"
    by (rule max_from_ge_best)
  from Cons.prems consider "y = b" | "y = x" | "y \<in> set xs"
    by auto
  then show ?case
  proof cases
    case 1
    with best show ?thesis by (auto split: if_splits)
  next
    case 2
    with best show ?thesis by (auto split: if_splits)
  next
    case 3
    with Cons.IH [of ?b] show ?thesis by simp
  qed
qed

lemma py_max_latest:
  assumes "xs \<noteq> []"
  shows "\<exists>r. py_max key xs = Inr r \<and> r \<in> set xs \<and> (\<forall>y\<in>set xs. key y \<le> key r)"
proof (cases xs)
  case Nil
  with assms show ?thesis by simp
next
  case (Cons x rest)
  then show ?thesis
    using max_from_mem [of key x rest] max_from_ge [of _ x rest key]
    by (auto simp: py_max_def)
qed

lemma upper_BACKUP: "map char_upper ''BACKUP'' = ''BACKUP''"
  by (simp add: char_upper_def)

lemma is_backup_folder_iff: "is_backup_folder f \<longleftrightarrow> backup_candidate f"
proof -
  have "take 6 (map char_upper s) = ''BACKUP''
        \<longleftrightarrow> 6 \<le> length s \<and> map char_upper (take 6 s) = ''BACKUP''" for s
  proof
    assume h: "take 6 (map char_upper s) = ''BACKUP''"
    then have "length (take 6 (map char_upper s)) = 6"
      by simp
    then have "6 \<le> length s"
      by simp
    with h show "6 \<le> length s \<and> map char_upper (take 6 s) = ''BACKUP''"
      by (simp add: take_map)
  next
    assume "6 \<le> length s \<and> map char_upper (take 6 s) = ''BACKUP''"
    then show "take 6 (map char_upper s) = ''BACKUP''"
      by (simp add: take_map)
  qed
  note aux = this
  have len: "length ''BACKUP'' = 6"
    by simp
  show ?thesis
    unfolding is_backup_folder_def backup_candidate_def starts_with_ignoring_case_def
      startswith_def py_upper_def upper_BACKUP len aux
    by (rule refl)
qed

text \<open>
  C7. When the base directory does not exist the locator fails with
  \<open>FileNotFoundError\<close>. When it is a directory, the entries considered are exactly
  those that are directories and whose name starts with \<open>BACKUP\<close> case-insensitively:
  if there is none the locator fails with \<open>FileNotFoundError\<close>, otherwise it returns
  one of them whose modification time is the latest among them. The locator is a
  function of the file system snapshot: it reads and changes nothing.
\<close>

theorem find_latest_backup_latest:
  fixes fs :: "('t::linorder) filesystem"
  shows "(fs base = Missing \<longrightarrow> find_latest_backup fs base = Inl FileNotFoundError)
       \<and> (\<forall>entries. fs base = Dir entries \<longrightarrow>
            ((\<forall>f\<in>set entries. \<not> backup_candidate f) \<longrightarrow>
               find_latest_backup fs base = Inl FileNotFoundError)
          \<and> ((\<exists>f\<in>set entries. backup_candidate f) \<longrightarrow>
               (\<exists>r. find_latest_backup fs base = Inr r
                  \<and> r \<in> set entries \<and> backup_candidate r
                  \<and> (\<forall>f\<in>set entries. backup_candidate f \<longrightarrow> d_st_mtime f \<le> d_st_mtime r))))"
proof (intro conjI allI impI)
  assume "fs base = Missing"
  then show "find_latest_backup fs base = Inl FileNotFoundError"
    by (simp add: find_latest_backup_def path_exists_def)
next
  fix entries
  assume d: "fs base = Dir entries" and none: "\<forall>f\<in>set entries. \<not> backup_candidate f"
  from none have "filter is_backup_folder entries = []"
    by (simp add: is_backup_folder_iff filter_empty_conv)
  with d show "find_latest_backup fs base = Inl FileNotFoundError"
    by (simp add: find_latest_backup_def path_exists_def iterdir_def)
next
  fix entries
  assume d: "fs base = Dir entries" and some: "\<exists>f\<in>set entries. backup_candidate f"
  let ?c = "filter is_backup_folder entries"
  from some have ne: "?c \<noteq> []"
    by (simp add: is_backup_folder_iff filter_empty_conv)
  from py_max_latest [OF ne, of d_st_mtime]
  obtain r where r: "py_max d_st_mtime ?c = Inr r" "r \<in> set ?c"
    "\<forall>y\<in>set ?c. d_st_mtime y \<le> d_st_mtime r"
    by blast
  from d ne r(1) have "find_latest_backup fs base = Inr r"
    by (simp add: find_latest_backup_def path_exists_def iterdir_def)
  with r(2,3) show "\<exists>r. find_latest_backup fs base = Inr r
      \<and> r \<in> set entries \<and> backup_candidate r
      \<and> (\<forall>f\<in>set entries. backup_candidate f \<longrightarrow> d_st_mtime f \<le> d_st_mtime r)"
    by (auto simp: is_backup_folder_iff)
qed

theorem find_latest_backup_latest_witness:
  "find_latest_backup sample_fs ''/data/backups'' =
     Inr \<lparr>d_name = ''Backup-2025-11'', d_is_dir = True, d_st_mtime = 9\<rparr>
   \<and> find_latest_backup sample_fs ''/data/empty'' = Inl FileNotFoundError
   \<and> find_latest_backup sample_fs ''/data/nowhere'' = Inl FileNotFoundError"
  using find_latest_backup_latest [of sample_fs "''/data/backups''"]
        find_latest_backup_latest [of sample_fs "''/data/empty''"]
        find_latest_backup_latest [of sample_fs "''/data/nowhere''"]
  by (simp add: sample_fs_def find_latest_backup_def path_exists_def iterdir_def
        is_backup_folder_def startswith_def py_upper_def char_upper_def py_max_def)

section \<open>The table exporter\<close>

text \<open>
  C3. The specification's \<open>ToolMissingError\<close> and \<open>ExportError\<close> are its names for
  what the source raises. \<open>export_table\<close> fails with its \<open>RuntimeError\<close> when the
  export utility cannot be located. It fails with the \<open>CalledProcessError\<close> of the
  process when the process exits with a non-zero status, with
  \<open>UnicodeDecodeError\<close> when its output cannot be decoded, and with whatever
  exception \<open>read_csv\<close> raises when the decoded output cannot be parsed as a table.
  When the process exits with status 0 and its output is decoded and parsed, the result is
  the parsed table; and the function returns a table in no other case.
\<close>

theorem export_table_outcomes:
  "(check_output env [''mdb-export'', mdb_file, table_name] = NoSuchExecutable \<longrightarrow>
      export_table env mdb_file table_name = Inl RuntimeError)
   \<and> (\<forall>rc out. check_output env [''mdb-export'', mdb_file, table_name] = Exited rc out
         \<and> rc \<noteq> 0 \<longrightarrow>
         export_table env mdb_file table_name = Inl (CalledProcessError rc))
   \<and> (\<forall>out. check_output env [''mdb-export'', mdb_file, table_name] = Exited 0 out
         \<and> decode_utf8 env out = None \<longrightarrow>
         export_table env mdb_file table_name = Inl UnicodeDecodeError)
   \<and> (\<forall>out txt e. check_output env [''mdb-export'', mdb_file, table_name] = Exited 0 out
         \<and> decode_utf8 env out = Some txt \<and> read_csv env txt = Inl e \<longrightarrow>
         export_table env mdb_file table_name = Inl e)
   \<and> (\<forall>out txt df. check_output env [''mdb-export'', mdb_file, table_name] = Exited 0 out
         \<and> decode_utf8 env out = Some txt \<and> read_csv env txt = Inr df \<longrightarrow>
         export_table env mdb_file table_name = Inr df)
   \<and> (\<forall>df. export_table env mdb_file table_name = Inr df \<longrightarrow>
         (\<exists>out txt. check_output env [''mdb-export'', mdb_file, table_name] = Exited 0 out
            \<and> decode_utf8 env out = Some txt \<and> read_csv env txt = Inr df))"
  by (auto simp: export_table_def split: proc_result.splits option.splits if_splits)

theorem export_table_outcomes_witness:
  "export_table no_tool_env ''pos.mdb'' ''INVOICE'' = Inl RuntimeError
   \<and> export_table sample_extract_env ''pos.mdb'' ''NOTABLE'' = Inl (CalledProcessError 1)
   \<and> export_table sample_extract_env ''pos.mdb'' ''ITEM'' = Inl EmptyDataError
   \<and> export_table sample_extract_env ''pos.mdb'' ''INVOICE'' = Inr sample_frame"
  using export_table_outcomes [of no_tool_env "''pos.mdb''" "''INVOICE''"]
        export_table_outcomes [of sample_extract_env "''pos.mdb''" "''NOTABLE''"]
        export_table_outcomes [of sample_extract_env "''pos.mdb''" "''ITEM''"]
        export_table_outcomes [of sample_extract_env "''pos.mdb''" "''INVOICE''"]
  by (simp add: sample_extract_env_def no_tool_env_def sample_csv_def tz_csv_def)

section \<open>The month filter\<close>

lemma select_by_index:
  "map fst (filter snd (zip (map h js) (map q js))) = map h (filter q js)"
  by (induction js) auto

lemma zip_with_index:
  "map (\<lambda>(r, v). f r v) (zip xs (map g [0..<length xs])) =
   map (\<lambda>i. f (xs ! i) (g i)) [0..<length xs]"
  by (rule nth_equalityI) simp_all

lemma month_mask_cell:
  "(dt_year c = Some year \<and> dt_month c = Some month) = (\<exists>d. c = Timestamp (year, month, d))"
proof (cases c)
  case (Timestamp t)
  then show ?thesis by (cases t) auto
qed simp_all

lemma filter_month_parsed:
  assumes c: "''DATE'' \<in> set (columns df)"
    and f: "to_datetime env (map (\<lambda>r. r ''DATE'') (rows df)) ErrorsCoerce True = Inr f"
  shows "filter_month env df year month =
           (if \<forall>i<length (rows df). is_datetime_cell (f i)
            then Inr (df\<lparr>rows :=
                   map (\<lambda>i. (rows df ! i)(''DATE'' := f i))
                     (filter (\<lambda>i. \<exists>d. f i = Timestamp (year, month, d))
                        [0..<length (rows df)])\<rparr>)
            else Inl (AttributeError ''dt''))"
proof -
  let ?n = "length (rows df)"
  let ?h = "\<lambda>i. (rows df ! i)(''DATE'' := f i)"
  let ?df1 = "set_column df ''DATE'' (map f [0..<?n])"
  have rows1: "rows ?df1 = map ?h [0..<?n]"
    using zip_with_index [of "\<lambda>r v. r(''DATE'' := v)" "rows df" f]
    by (simp add: set_column_def)
  have cols1: "columns ?df1 = columns df"
    using c by (simp add: set_column_def)
  have dates: "get_column ?df1 ''DATE'' = Inr (map f [0..<?n])"
    using c by (simp add: get_column_def cols1 rows1 o_def)
  have acc: "dt_accessor (map f [0..<?n]) =
               (if \<forall>i<?n. is_datetime_cell (f i) then Inr (map f [0..<?n])
                else Inl (AttributeError ''dt''))"
    by (simp add: dt_accessor_def list_all_iff)
  have sel: "select_rows ?df1
               (map (\<lambda>c. dt_year c = Some year \<and> dt_month c = Some month) (map f [0..<?n])) =
             df\<lparr>rows := map ?h (filter (\<lambda>i. \<exists>d. f i = Timestamp (year, month, d)) [0..<?n])\<rparr>"
  proof -
    have upd: "?df1\<lparr>rows := X\<rparr> = df\<lparr>rows := X\<rparr>" for X
      using c by (simp add: set_column_def)
    have "map fst (filter snd (zip (rows ?df1)
            (map (\<lambda>c. dt_year c = Some year \<and> dt_month c = Some month) (map f [0..<?n])))) =
          map ?h (filter (\<lambda>i. \<exists>d. f i = Timestamp (year, month, d)) [0..<?n])"
      unfolding rows1 by (simp add: month_mask_cell o_def select_by_index)
    then show ?thesis
      unfolding select_rows_def by (simp only: upd)
  qed
  have "filter_month env df year month =
          (case dt_accessor (map f [0..<?n]) of
             Inl e \<Rightarrow> Inl e
           | Inr d \<Rightarrow>
               Inr (select_rows ?df1
                      (map (\<lambda>c. dt_year c = Some year \<and> dt_month c = Some month) d)))"
    using c f dates by (simp add: filter_month_def get_column_def Let_def)
  then show ?thesis
    by (simp add: acc sel del: map_map)
qed

lemma filter_month_parser_raises:
  assumes "''DATE'' \<in> set (columns df)"
    and "to_datetime env (map (\<lambda>r. r ''DATE'') (rows df)) ErrorsCoerce True = Inl e"
  shows "filter_month env df year month = Inl e"
  using assms by (simp add: filter_month_def get_column_def)

lemma filter_month_result_dates:
  assumes "filter_month env df year month = Inr res"
  shows "\<forall>r\<in>set (rows res). \<exists>d. r ''DATE'' = Timestamp (year, month, d)"
proof -
  have c: "''DATE'' \<in> set (columns df)"
    using assms by (auto simp: filter_month_def get_column_def split: if_splits)
  obtain f where f: "to_datetime env (map (\<lambda>r. r ''DATE'') (rows df)) ErrorsCoerce True = Inr f"
    using assms c
    by (cases "to_datetime env (map (\<lambda>r. r ''DATE'') (rows df)) ErrorsCoerce True")
       (auto simp: filter_month_def get_column_def)
  from assms filter_month_parsed [OF c f, of year month]
  have "rows res = map (\<lambda>i. (rows df ! i)(''DATE'' := f i))
                     (filter (\<lambda>i. \<exists>d. f i = Timestamp (year, month, d)) [0..<length (rows df)])"
    by (auto split: if_splits)
  then show ?thesis
    by auto
qed

text \<open>
  C1, as the claim states it, fails: the sample table of \<open>tz.mdb\<close> is exported and has
  a \<open>DATE\<close> column, both of its dates are dates of November 2025, and the month
  filter raises \<open>ValueError\<close> instead of returning their rows, because the date parser
  raises on a column that mixes UTC offsets.
\<close>

theorem month_filter_raises_on_mixed_offsets_counterexample:
  "export_table sample_extract_env ''tz.mdb'' ''INVOICE'' = Inr tz_frame
   \<and> ''DATE'' \<in> set (columns tz_frame)
   \<and> extract_invoices sample_extract_env ''tz.mdb'' 2025 11 = Inl ValueError"
proof -
  have e: "export_table sample_extract_env ''tz.mdb'' ''INVOICE'' = Inr tz_frame"
    by (simp add: export_table_def sample_extract_env_def sample_csv_def tz_csv_def)
  have c: "''DATE'' \<in> set (columns tz_frame)"
    by (simp add: tz_frame_def)
  have p: "to_datetime sample_extract_env (map (\<lambda>r. r ''DATE'') (rows tz_frame))
             ErrorsCoerce True = Inl ValueError"
    by (simp add: sample_extract_env_def sample_to_datetime_def tz_frame_def sample_row_def)
  from e c p show ?thesis
    by (simp add: extract_invoices_def filter_month_def get_column_def)
qed

text \<open>
  C1, amended. When the export of the table succeeds, the table has a \<open>DATE\<close> column
  and the date parser, called on that column with \<open>errors='coerce'\<close> and
  \<open>dayfirst=True\<close>, returns a datetime column, the month filter returns, without an
  exception, the table restricted to exactly the positions whose parsed date has the
  target year and month, in the order of the source table, each row with its \<open>DATE\<close>
  cell replaced by the parsed date. When the date parser raises, the month filter raises
  the same exception. Every row the month filter returns carries a timestamp of the target
  month, so no row whose date did not parse is among them. This holds for
  \<open>extract_invoices\<close> on the table \<open>INVOICE\<close> and for \<open>extract_sales\<close> on the
  table \<open>SALE\<close>.
\<close>

theorem month_filter_rows_of_parsed_month:
  "(\<forall>df f. export_table env mdb_file ''INVOICE'' = Inr df \<and> ''DATE'' \<in> set (columns df)
        \<and> to_datetime env (map (\<lambda>r. r ''DATE'') (rows df)) ErrorsCoerce True = Inr f
        \<and> (\<forall>i<length (rows df). is_datetime_cell (f i)) \<longrightarrow>
      extract_invoices env mdb_file year month =
        Inr (df\<lparr>rows :=
          map (\<lambda>i. (rows df ! i)(''DATE'' := f i))
            (filter (\<lambda>i. \<exists>d. f i = Timestamp (year, month, d)) [0..<length (rows df)])\<rparr>))
   \<and> (\<forall>df f. export_table env mdb_file ''SALE'' = Inr df \<and> ''DATE'' \<in> set (columns df)
        \<and> to_datetime env (map (\<lambda>r. r ''DATE'') (rows df)) ErrorsCoerce True = Inr f
        \<and> (\<forall>i<length (rows df). is_datetime_cell (f i)) \<longrightarrow>
      extract_sales env mdb_file year month =
        Inr (df\<lparr>rows :=
          map (\<lambda>i. (rows df ! i)(''DATE'' := f i))
            (filter (\<lambda>i. \<exists>d. f i = Timestamp (year, month, d)) [0..<length (rows df)])\<rparr>))
   \<and> (\<forall>df e. export_table env mdb_file ''INVOICE'' = Inr df \<and> ''DATE'' \<in> set (columns df)
        \<and> to_datetime env (map (\<lambda>r. r ''DATE'') (rows df)) ErrorsCoerce True = Inl e \<longrightarrow>
      extract_invoices env mdb_file year month = Inl e)
   \<and> (\<forall>df e. export_table env mdb_file ''SALE'' = Inr df \<and> ''DATE'' \<in> set (columns df)
        \<and> to_datetime env (map (\<lambda>r. r ''DATE'') (rows df)) ErrorsCoerce True = Inl e \<longrightarrow>
      extract_sales env mdb_file year month = Inl e)
   \<and> (\<forall>res. (extract_invoices env mdb_file year month = Inr res
              \<or> extract_sales env mdb_file year month = Inr res) \<longrightarrow>
        (\<forall>r\<in>set (rows res). \<exists>d. r ''DATE'' = Timestamp (year, month, d)))"
proof (intro conjI allI impI)
  fix df f
  assume "export_table env mdb_file ''INVOICE'' = Inr df \<and> ''DATE'' \<in> set (columns df)
        \<and> to_datetime env (map (\<lambda>r. r ''DATE'') (rows df)) ErrorsCoerce True = Inr f
        \<and> (\<forall>i<length (rows df). is_datetime_cell (f i))"
  then show "extract_invoices env mdb_file year month =
        Inr (df\<lparr>rows :=
          map (\<lambda>i. (rows df ! i)(''DATE'' := f i))
            (filter (\<lambda>i. \<exists>d. f i = Timestamp (year, month, d)) [0..<length (rows df)])\<rparr>)"
    by (simp add: extract_invoices_def filter_month_parsed)
next
  fix df f
  assume "export_table env mdb_file ''SALE'' = Inr df \<and> ''DATE'' \<in> set (columns df)
        \<and> to_datetime env (map (\<lambda>r. r ''DATE'') (rows df)) ErrorsCoerce True = Inr f
        \<and> (\<forall>i<length (rows df). is_datetime_cell (f i))"
  then show "extract_sales env mdb_file year month =
        Inr (df\<lparr>rows :=
          map (\<lambda>i. (rows df ! i)(''DATE'' := f i))
            (filter (\<lambda>i. \<exists>d. f i = Timestamp (year, month, d)) [0..<length (rows df)])\<rparr>)"
    by (simp add: extract_sales_def filter_month_parsed)
next
  fix df e
  assume "export_table env mdb_file ''INVOICE'' = Inr df \<and> ''DATE'' \<in> set (columns df)
        \<and> to_datetime env (map (\<lambda>r. r ''DATE'') (rows df)) ErrorsCoerce True = Inl e"
  then show "extract_invoices env mdb_file year month = Inl e"
    by (simp add: extract_invoices_def filter_month_parser_raises)
next
  fix df e
  assume "export_table env mdb_file ''SALE'' = Inr df \<and> ''DATE'' \<in> set (columns df)
        \<and> to_datetime env (map (\<lambda>r. r ''DATE'') (rows df)) ErrorsCoerce True = Inl e"
  then show "extract_sales env mdb_file year month = Inl e"
    by (simp add: extract_sales_def filter_month_parser_raises)
next
  fix res
  assume res: "extract_invoices env mdb_file year month = Inr res
             \<or> extract_sales env mdb_file year month = Inr res"
  have "\<exists>t. filter_month env t year month = Inr res"
    using res
    by (auto simp: extract_invoices_def extract_sales_def split: sum.splits)
  then obtain t where t: "filter_month env t year month = Inr res"
    by blast
  then show "\<forall>r\<in>set (rows res). \<exists>d. r ''DATE'' = Timestamp (year, month, d)"
    by (rule filter_month_result_dates)
qed

theorem month_filter_rows_of_parsed_month_witness:
  "\<exists>res. extract_invoices sample_extract_env ''pos.mdb'' 2025 11 = Inr res
     \<and> extract_sales sample_extract_env ''pos.mdb'' 2025 11 = Inr res
     \<and> columns res = [''DATE'', ''TOTAL'']
     \<and> map (\<lambda>r. r ''TOTAL'') (rows res) = [Raw ''100'', Raw ''200'']
     \<and> map (\<lambda>r. r ''DATE'') (rows res) = [Timestamp (2025, 11, 1), Timestamp (2025, 11, 2)]"
proof -
  let ?col = "[Raw ''01/11/2025'', Raw ''not a date'', Raw ''05/10/2025'', Raw ''02/11/2025'']"
  let ?f = "\<lambda>i. if i < length ?col then sample_parse True (?col ! i) else NaT"
  have e: "export_table sample_extract_env ''pos.mdb'' ''INVOICE'' = Inr sample_frame"
          "export_table sample_extract_env ''pos.mdb'' ''SALE'' = Inr sample_frame"
    by (simp_all add: export_table_def sample_extract_env_def sample_csv_def tz_csv_def)
  have c: "''DATE'' \<in> set (columns sample_frame)"
    by (simp add: sample_frame_def)
  have col: "map (\<lambda>r. r ''DATE'') (rows sample_frame) = ?col"
    by (simp add: sample_frame_def sample_row_def)
  have p: "to_datetime sample_extract_env (map (\<lambda>r. r ''DATE'') (rows sample_frame))
             ErrorsCoerce True = Inr ?f"
    unfolding col by (simp add: sample_extract_env_def sample_to_datetime_def)
  have v: "?f 0 = Timestamp (2025, 11, 1)" "?f 1 = NaT" "?f 2 = Timestamp (2025, 10, 5)"
    "?f 3 = Timestamp (2025, 11, 2)"
    by (simp_all add: sample_parse_def)
  have n: "[0..<length (rows sample_frame)] = [0, 1, 2, 3]"
    by (simp add: sample_frame_def upt_rec)
  have d: "\<forall>i<length (rows sample_frame). is_datetime_cell (?f i)"
    by (simp add: sample_parse_def)
  have k: "filter (\<lambda>i. \<exists>d. ?f i = Timestamp (2025, 11, d)) [0, 1, 2, 3] = [0, 3]"
    by (simp add: sample_parse_def)
  note T = month_filter_rows_of_parsed_month [of sample_extract_env "''pos.mdb''" 2025 11]
  note inv = T [THEN conjunct1, rule_format, OF conjI [OF e(1) conjI [OF c conjI [OF p d]]]]
  note sal = T [THEN conjunct2, THEN conjunct1, rule_format,
                OF conjI [OF e(2) conjI [OF c conjI [OF p d]]]]
  let ?res = "sample_frame\<lparr>rows :=
     map (\<lambda>i. (rows sample_frame ! i)(''DATE'' := ?f i))
       (filter (\<lambda>i. \<exists>d. ?f i = Timestamp (2025, 11, d))
          [0..<length (rows sample_frame)])\<rparr>"
  have rr: "rows ?res =
      [(rows sample_frame ! 0)(''DATE'' := ?f 0), (rows sample_frame ! 3)(''DATE'' := ?f 3)]"
    unfolding n k by simp
  have c1: "columns ?res = [''DATE'', ''TOTAL'']"
    by (simp add: sample_frame_def)
  have c2: "map (\<lambda>r. r ''TOTAL'') (rows ?res) = [Raw ''100'', Raw ''200'']"
    unfolding rr by (simp add: sample_frame_def sample_row_def)
  have c3: "map (\<lambda>r. r ''DATE'') (rows ?res) =
      [Timestamp (2025, 11, 1), Timestamp (2025, 11, 2)]"
    unfolding rr by (simp add: sample_parse_def)
  from inv sal c1 c2 c3 show ?thesis
    by (intro exI [of _ ?res] conjI)
qed

section \<open>The top items\<close>

lemma first_seen_snoc:
  "first_seen (xs @ [x]) = (if x \<in> set xs then first_seen xs else first_seen xs @ [x])"
  by (simp add: first_seen_def)

lemma set_first_seen: "set (first_seen xs) = set xs"
  by (simp add: first_seen_def)

lemma distinct_first_seen: "distinct (first_seen xs)"
  by (simp add: first_seen_def)

lemma length_first_seen: "length (first_seen xs) = card (set xs)"
  by (simp add: first_seen_def length_remdups_card_conv)

lemma group_items_snoc: "group_items (sls @ [s]) = add_sale_to_items s (group_items sls)"
  by (simp add: group_items_def)

lemma add_sale_to_items_names:
  "map item_ITEMS (add_sale_to_items s rs) =
     (if sale_item s \<in> set (map item_ITEMS rs) then map item_ITEMS rs
      else map item_ITEMS rs @ [sale_item s])"
  by (induction rs) auto

lemma group_items_names: "map item_ITEMS (group_items sls) = first_seen (map sale_item sls)"
proof (induction sls rule: rev_induct)
  case Nil
  then show ?case by (simp add: group_items_def first_seen_def)
next
  case (snoc s sls)
  have "set (map item_ITEMS (group_items sls)) = set (map sale_item sls)"
    by (simp only: snoc.IH set_first_seen)
  with snoc.IH show ?case
    by (simp only: group_items_snoc add_sale_to_items_names map_append list.map first_seen_snoc)
qed

lemma add_sale_to_items_distinct:
  assumes "distinct (map item_ITEMS rs)"
  shows "add_sale_to_items s rs =
     (if sale_item s \<in> set (map item_ITEMS rs)
      then map (\<lambda>r. if item_ITEMS r = sale_item s
                     then r\<lparr>item_QTY := item_QTY r + sale_qty s,
                            item_AMOUNT := item_AMOUNT r + sale_amount s,
                            item_PROFIT := item_PROFIT r + sale_profit s\<rparr>
                     else r) rs
      else rs @ [\<lparr>item_ITEMS = sale_item s, item_QTY = sale_qty s,
                  item_AMOUNT = sale_amount s, item_PROFIT = sale_profit s\<rparr>])"
  using assms
proof (induction rs)
  case Nil
  then show ?case by simp
next
  case (Cons r rs)
  show ?case
  proof (cases "item_ITEMS r = sale_item s")
    case True
    with Cons.prems have "sale_item s \<notin> item_ITEMS ` set rs"
      by simp
    then have "\<forall>x\<in>set rs. item_ITEMS x \<noteq> sale_item s"
      by (metis imageI)
    then have "map (\<lambda>r. if item_ITEMS r = sale_item s
                     then r\<lparr>item_QTY := item_QTY r + sale_qty s,
                            item_AMOUNT := item_AMOUNT r + sale_amount s,
                            item_PROFIT := item_PROFIT r + sale_profit s\<rparr>
                     else r) rs = rs"
      by (simp add: map_idI)
    with True show ?thesis by simp
  next
    case False
    with Cons show ?thesis by auto
  qed
qed

lemma item_total_snoc:
  "item_total f name (sls @ [s]) =
     item_total f name sls + (if sale_item s = name then f s else 0)"
  by (simp add: item_total_def)

lemma item_total_absent: "name \<notin> sale_item ` set sls \<Longrightarrow> item_total f name sls = 0"
proof -
  assume "name \<notin> sale_item ` set sls"
  then have "filter (\<lambda>s. sale_item s = name) sls = []"
    by (auto simp: filter_empty_conv)
  then show ?thesis by (simp add: item_total_def)
qed

lemma group_items_sums:
  "r \<in> set (group_items sls) \<Longrightarrow>
     item_QTY r = item_total sale_qty (item_ITEMS r) sls
     \<and> item_AMOUNT r = item_total sale_amount (item_ITEMS r) sls
     \<and> item_PROFIT r = item_total sale_profit (item_ITEMS r) sls"
proof (induction sls arbitrary: r rule: rev_induct)
  case Nil
  then show ?case by (simp add: group_items_def)
next
  case (snoc s sls)
  let ?g = "group_items sls"
  have names: "set (map item_ITEMS ?g) = sale_item ` set sls"
    by (simp add: group_items_names set_first_seen)
  have dist: "distinct (map item_ITEMS ?g)"
    by (simp add: group_items_names distinct_first_seen)
  show ?case
  proof (cases "sale_item s \<in> set (map item_ITEMS ?g)")
    case True
    with snoc.prems obtain r0 where r0: "r0 \<in> set ?g"
      and r: "r = (if item_ITEMS r0 = sale_item s
                   then r0\<lparr>item_QTY := item_QTY r0 + sale_qty s,
                           item_AMOUNT := item_AMOUNT r0 + sale_amount s,
                           item_PROFIT := item_PROFIT r0 + sale_profit s\<rparr>
                   else r0)"
      by (auto simp: group_items_snoc add_sale_to_items_distinct [OF dist])
    from snoc.IH [OF r0] r show ?thesis
      by (auto simp: item_total_snoc)
  next
    case False
    with snoc.prems have "r \<in> set ?g
        \<or> r = \<lparr>item_ITEMS = sale_item s, item_QTY = sale_qty s,
                item_AMOUNT = sale_amount s, item_PROFIT = sale_profit s\<rparr>"
      by (auto simp: group_items_snoc add_sale_to_items_distinct [OF dist])
    then show ?thesis
    proof
      assume old: "r \<in> set ?g"
      then have "item_ITEMS r \<in> set (map item_ITEMS ?g)"
        by simp
      with False have "item_ITEMS r \<noteq> sale_item s"
        by metis
      with snoc.IH [OF old] show ?thesis
        by (auto simp: item_total_snoc)
    next
      assume new: "r = \<lparr>item_ITEMS = sale_item s, item_QTY = sale_qty s,
                item_AMOUNT = sale_amount s, item_PROFIT = sale_profit s\<rparr>"
      from False names have "sale_item s \<notin> sale_item ` set sls"
        by simp
      then have "item_total f (sale_item s) sls = 0" for f
        by (rule item_total_absent)
      with new show ?thesis
        by (simp add: item_total_snoc)
    qed
  qed
qed

lemma group_items_length: "length (group_items sls) = card (sale_item ` set sls)"
proof -
  have "length (group_items sls) = length (map item_ITEMS (group_items sls))"
    by simp
  also have "\<dots> = card (set (map sale_item sls))"
    by (simp only: group_items_names length_first_seen)
  finally show ?thesis by simp
qed

lemma top_items_sorted:
  "sorted_wrt (\<lambda>a b. item_AMOUNT b \<le> item_AMOUNT a) (compute_top_items n sls)"
proof -
  have "sorted (map (\<lambda>r. - item_AMOUNT r) (sort_key (\<lambda>r. - item_AMOUNT r) (group_items sls)))"
    by (rule sorted_sort_key)
  then have "sorted_wrt (\<lambda>a b. item_AMOUNT b \<le> item_AMOUNT a)
               (sort_key (\<lambda>r. - item_AMOUNT r) (group_items sls))"
    by (simp add: sorted_map)
  then show ?thesis
    unfolding compute_top_items_def by (rule sorted_wrt_take)
qed

lemma top_items_stable:
  "prefix (filter (\<lambda>r. item_AMOUNT r = v) (compute_top_items n sls))
          (filter (\<lambda>r. item_AMOUNT r = v) (group_items sls))"
proof -
  let ?s = "sort_key (\<lambda>r. - item_AMOUNT r) (group_items sls)"
  have "prefix (filter (\<lambda>r. item_AMOUNT r = v) (take n ?s)) (filter (\<lambda>r. item_AMOUNT r = v) ?s)"
    by (rule filter_mono_prefix) (rule take_is_prefix)
  moreover have "filter (\<lambda>r. item_AMOUNT r = v) ?s = filter (\<lambda>r. item_AMOUNT r = v) (group_items sls)"
    using sort_key_stable [of "\<lambda>r. - item_AMOUNT r" "- v" "group_items sls"]
    by simp
  ultimately show ?thesis
    by (simp add: compute_top_items_def)
qed

lemma top_items_subset: "set (compute_top_items n sls) \<subseteq> set (group_items sls)"
proof -
  have "set (take n (sort_key (\<lambda>r. - item_AMOUNT r) (group_items sls)))
          \<subseteq> set (sort_key (\<lambda>r. - item_AMOUNT r) (group_items sls))"
    by (rule set_take_subset)
  then show ?thesis
    by (simp add: compute_top_items_def)
qed

text \<open>
  C5. For every list of sale records and every count N, \<open>top_items\<close> has length
  \<open>min N\<close> (number of distinct item names) and is sorted by summed revenue in
  descending order. It is stable under ties: the per-item entries are formed in the order
  in which the item names are first encountered, and for every revenue the entries of
  \<open>top_items\<close> with that revenue are an initial part, in the same order, of the
  per-item entries with that revenue. Each entry carries the name of an item that was sold
  and that item's summed quantity, revenue and profit.
\<close>

theorem top_items_sorted_stable:
  "length (compute_top_items n sls) = min n (card (sale_item ` set sls))
   \<and> sorted_wrt (\<lambda>a b. item_AMOUNT b \<le> item_AMOUNT a) (compute_top_items n sls)
   \<and> map item_ITEMS (group_items sls) = first_seen (map sale_item sls)
   \<and> (\<forall>v. prefix (filter (\<lambda>r. item_AMOUNT r = v) (compute_top_items n sls))
                 (filter (\<lambda>r. item_AMOUNT r = v) (group_items sls)))
   \<and> (\<forall>r\<in>set (compute_top_items n sls).
         item_ITEMS r \<in> sale_item ` set sls
         \<and> item_QTY r = sum_list (map sale_qty (filter (\<lambda>s. sale_item s = item_ITEMS r) sls))
         \<and> item_AMOUNT r =
             sum_list (map sale_amount (filter (\<lambda>s. sale_item s = item_ITEMS r) sls))
         \<and> item_PROFIT r =
             sum_list (map sale_profit (filter (\<lambda>s. sale_item s = item_ITEMS r) sls)))"
proof (intro conjI allI ballI)
  show "length (compute_top_items n sls) = min n (card (sale_item ` set sls))"
    by (simp add: compute_top_items_def group_items_length min.commute)
  show "sorted_wrt (\<lambda>a b. item_AMOUNT b \<le> item_AMOUNT a) (compute_top_items n sls)"
    by (rule top_items_sorted)
  show "map item_ITEMS (group_items sls) = first_seen (map sale_item sls)"
    by (rule group_items_names)
  show "prefix (filter (\<lambda>r. item_AMOUNT r = v) (compute_top_items n sls))
               (filter (\<lambda>r. item_AMOUNT r = v) (group_items sls))" for v
    by (rule top_items_stable)
next
  fix r
  assume "r \<in> set (compute_top_items n sls)"
  with top_items_subset have g: "r \<in> set (group_items sls)"
    by blast
  then have "item_ITEMS r \<in> set (map item_ITEMS (group_items sls))"
    by simp
  then show "item_ITEMS r \<in> sale_item ` set sls"
    by (simp add: group_items_names set_first_seen)
  from group_items_sums [OF g]
  show "item_QTY r = sum_list (map sale_qty (filter (\<lambda>s. sale_item s = item_ITEMS r) sls))"
    and "item_AMOUNT r =
           sum_list (map sale_amount (filter (\<lambda>s. sale_item s = item_ITEMS r) sls))"
    and "item_PROFIT r =
           sum_list (map sale_profit (filter (\<lambda>s. sale_item s = item_ITEMS r) sls))"
    by (simp_all add: item_total_def)
qed

theorem top_items_sorted_stable_witness:
  "group_items sample_sales =
     [\<lparr>item_ITEMS = ''TEA'', item_QTY = 1, item_AMOUNT = 300, item_PROFIT = 100\<rparr>,
      \<lparr>item_ITEMS = ''PIZZA'', item_QTY = 3, item_AMOUNT = 750, item_PROFIT = 300\<rparr>,
      \<lparr>item_ITEMS = ''COFFEE'', item_QTY = 3, item_AMOUNT = 300, item_PROFIT = 150\<rparr>]
   \<and> compute_top_items 2 sample_sales =
     [\<lparr>item_ITEMS = ''PIZZA'', item_QTY = 3, item_AMOUNT = 750, item_PROFIT = 300\<rparr>,
      \<lparr>item_ITEMS = ''TEA'', item_QTY = 1, item_AMOUNT = 300, item_PROFIT = 100\<rparr>]
   \<and> length (compute_top_items 5 sample_sales) = 3"
proof -
  have g: "group_items sample_sales =
     [\<lparr>item_ITEMS = ''TEA'', item_QTY = 1, item_AMOUNT = 300, item_PROFIT = 100\<rparr>,
      \<lparr>item_ITEMS = ''PIZZA'', item_QTY = 3, item_AMOUNT = 750, item_PROFIT = 300\<rparr>,
      \<lparr>item_ITEMS = ''COFFEE'', item_QTY = 3, item_AMOUNT = 300, item_PROFIT = 150\<rparr>]"
    by (simp add: group_items_def sample_sales_def)
  have t: "compute_top_items 2 sample_sales =
     [\<lparr>item_ITEMS = ''PIZZA'', item_QTY = 3, item_AMOUNT = 750, item_PROFIT = 300\<rparr>,
      \<lparr>item_ITEMS = ''TEA'', item_QTY = 1, item_AMOUNT = 300, item_PROFIT = 100\<rparr>]"
    by (simp add: compute_top_items_def g)
  have l: "length (compute_top_items 5 sample_sales) = 3"
    using top_items_sorted_stable [of 5 sample_sales]
    by (simp add: compute_top_items_def g)
  from g t l top_items_sorted_stable [of 2 sample_sales] show ?thesis
    by simp
qed

end
